theory Spec2Isabelle
  imports Main
begin

section \<open>Go strings and \<open>strings.ToUpper\<close>\<close>

text \<open>
  A Go string is a sequence of bytes; it is modelled as a \<open>string\<close> (a list of 8-bit
  characters). \<open>byte c\<close> is the numeric value of a byte.
\<close>

type_synonym rune = nat

definition byte :: "char \<Rightarrow> nat" where
  "byte c = of_char c"

definition DQ :: char where
  "DQ = CHR 0x22"

definition BSL :: char where
  "BSL = CHR 0x5C"

definition NL :: char where
  "NL = CHR 0x0A"

definition TAB :: char where
  "TAB = CHR 0x09"

definition CR :: char where
  "CR = CHR 0x0D"

definition RuneError :: rune where
  "RuneError = 0xFFFD"

text \<open>
  \<open>utf8.DecodeRuneInString\<close>: the first rune of the string and its width in bytes. An
  invalid or truncated encoding decodes as \<open>(RuneError, 1)\<close>, the empty string as
  \<open>(RuneError, 0)\<close>. Overlong forms, surrogates and values above U+10FFFF are invalid.
\<close>

definition inRange :: "nat \<Rightarrow> nat \<Rightarrow> char \<Rightarrow> bool" where
  "inRange lo hi c = (lo \<le> byte c \<and> byte c \<le> hi)"

fun DecodeRuneInString :: "string \<Rightarrow> rune \<times> nat" where
  "DecodeRuneInString [] = (RuneError, 0)"
| "DecodeRuneInString (c0 # cs) =
    (let b0 = byte c0 in
     if b0 < 0x80 then (b0, 1)
     else if 0xC2 \<le> b0 \<and> b0 \<le> 0xDF then
       (case cs of
          c1 # _ \<Rightarrow>
            if inRange 0x80 0xBF c1 then ((b0 mod 32) * 64 + byte c1 mod 64, 2)
            else (RuneError, 1)
        | _ \<Rightarrow> (RuneError, 1))
     else if 0xE0 \<le> b0 \<and> b0 \<le> 0xEF then
       (case cs of
          c1 # c2 # _ \<Rightarrow>
            if inRange (if b0 = 0xE0 then 0xA0 else 0x80) (if b0 = 0xED then 0x9F else 0xBF) c1
               \<and> inRange 0x80 0xBF c2
            then ((b0 mod 16) * 4096 + (byte c1 mod 64) * 64 + byte c2 mod 64, 3)
            else (RuneError, 1)
        | _ \<Rightarrow> (RuneError, 1))
     else if 0xF0 \<le> b0 \<and> b0 \<le> 0xF4 then
       (case cs of
          c1 # c2 # c3 # _ \<Rightarrow>
            if inRange (if b0 = 0xF0 then 0x90 else 0x80) (if b0 = 0xF4 then 0x8F else 0xBF) c1
               \<and> inRange 0x80 0xBF c2 \<and> inRange 0x80 0xBF c3
            then ((b0 mod 8) * 262144 + (byte c1 mod 64) * 4096 + (byte c2 mod 64) * 64
                  + byte c3 mod 64, 4)
            else (RuneError, 1)
        | _ \<Rightarrow> (RuneError, 1))
     else (RuneError, 1))"

text \<open>The runes a \<open>for _, c := range s\<close> loop sees.\<close>

fun runes :: "string \<Rightarrow> rune list" where
  "runes [] = []"
| "runes (c # cs) =
    (case DecodeRuneInString (c # cs) of (r, w) \<Rightarrow> r # runes (drop (w - 1) cs))"

text \<open>\<open>utf8.AppendRune\<close>: the UTF-8 encoding of a rune; an invalid rune is written as U+FFFD.\<close>

definition EncodeRune :: "rune \<Rightarrow> string" where
  "EncodeRune r =
    (if r \<le> 0x7F then [char_of r]
     else if r \<le> 0x7FF then [char_of (0xC0 + r div 64), char_of (0x80 + r mod 64)]
     else if r > 0x10FFFF \<or> (0xD800 \<le> r \<and> r \<le> 0xDFFF) then [CHR 0xEF, CHR 0xBF, CHR 0xBD]
     else if r \<le> 0xFFFF then
       [char_of (0xE0 + r div 4096), char_of (0x80 + (r div 64) mod 64), char_of (0x80 + r mod 64)]
     else
       [char_of (0xF0 + r div 262144), char_of (0x80 + (r div 4096) mod 64),
        char_of (0x80 + (r div 64) mod 64), char_of (0x80 + r mod 64)])"

text \<open>
  \<open>unicode.ToUpper\<close>. On ASCII it is written out in Go's source (\<open>'a'..'z'\<close> lose
  \<open>'a' - 'A'\<close>). Above ASCII it looks the rune up in the table \<open>unicode.CaseRanges\<close> of
  the Go release in use; that table is the parameter \<open>tbl\<close>.
\<close>

definition unicode_ToUpper :: "(rune \<Rightarrow> rune) \<Rightarrow> rune \<Rightarrow> rune" where
  "unicode_ToUpper tbl r =
    (if r \<le> 0x7F
     then (if byte CHR ''a'' \<le> r \<and> r \<le> byte CHR ''z'' then r - (byte CHR ''a'' - byte CHR ''A'') else r)
     else tbl r)"

definition isASCII :: "string \<Rightarrow> bool" where
  "isASCII s = list_all (\<lambda>c. byte c < 0x80) s"

definition asciiUpper :: "char \<Rightarrow> char" where
  "asciiUpper c =
    (if byte CHR ''a'' \<le> byte c \<and> byte c \<le> byte CHR ''z''
     then char_of (byte c - (byte CHR ''a'' - byte CHR ''A'')) else c)"

text \<open>
  \<open>strings.ToUpper\<close>: an ASCII-only string is mapped byte by byte; any other string goes
  through \<open>strings.Map(unicode.ToUpper, s)\<close>, which decodes the runes, maps each and
  encodes the results (an invalid byte comes out as U+FFFD).
\<close>

definition strings_ToUpper :: "(rune \<Rightarrow> rune) \<Rightarrow> string \<Rightarrow> string" where
  "strings_ToUpper tbl s =
    (if isASCII s then map asciiUpper s
     else concat (map (\<lambda>r. EncodeRune (unicode_ToUpper tbl r)) (runes s)))"

section \<open>\<open>fmt.Sprintf\<close>\<close>

text \<open>
  The arguments the facade formats: booleans and strings are written out, every other Go
  value is opaque. \<open>simpleFormat\<close> is \<open>fmt.Sprintf\<close> on the formats made of literal
  text and the verbs \<open>%s\<close> (on a string) and \<open>%t\<close> (on a boolean), one verb per
  argument; it is \<open>None\<close> on every other call (another verb, flags, a verb on the wrong
  kind of argument, too few or too many arguments), whose output is left to the
  parameter \<open>other\<close>.
\<close>

datatype arg = BoolArg bool | StringArg string | OtherArg nat

definition verb :: "char \<Rightarrow> arg \<Rightarrow> string option" where
  "verb v a =
    (case a of
       StringArg x \<Rightarrow> if v = CHR ''s'' then Some x else None
     | BoolArg b \<Rightarrow> if v = CHR ''t'' then Some (if b then ''true'' else ''false'') else None
     | OtherArg _ \<Rightarrow> None)"

fun simpleFormat :: "string \<Rightarrow> arg list \<Rightarrow> string option" where
  "simpleFormat [] as = (if as = [] then Some [] else None)"
| "simpleFormat (c # fmt) as =
    (if c \<noteq> CHR ''%'' then map_option (\<lambda>out. c # out) (simpleFormat fmt as)
     else (case fmt of
             [] \<Rightarrow> None
           | v # fmt' \<Rightarrow>
               (case as of
                  [] \<Rightarrow> None
                | a # as' \<Rightarrow>
                    (case verb v a of
                       None \<Rightarrow> None
                     | Some x \<Rightarrow> map_option (\<lambda>out. x @ out) (simpleFormat fmt' as')))))"

definition Sprintf :: "(string \<Rightarrow> arg list \<Rightarrow> string) \<Rightarrow> string \<Rightarrow> arg list \<Rightarrow> string" where
  "Sprintf other format a =
    (case simpleFormat format a of Some out \<Rightarrow> out | None \<Rightarrow> other format a)"

section \<open>\<open>encoding/json\<close>: the syntax check of \<open>json.Unmarshal\<close>\<close>

text \<open>
  \<open>json.Unmarshal\<close> first runs \<open>checkValid\<close>, a byte-at-a-time scanner with a stack
  of open objects and arrays, and returns a syntax error when it fails. The scanner is
  modelled state by state. A scanner error is \<open>None\<close>. The head of \<open>parseStack\<close> is the
  innermost open object or array. (The limit on the nesting depth that later Go releases
  add is not part of the check here: it matters only to documents nested ten thousand
  levels deep, which \<open>json_Unmarshal\<close> below hands to its parameter.)
\<close>

datatype stepfn =
    BeginValueOrEmpty | BeginValue | BeginStringOrEmpty | BeginString | EndValue | EndTop
  | InString | InStringEsc | InStringEscU | InStringEscU1 | InStringEscU12 | InStringEscU123
  | Neg | S1 | S0 | Dot | Dot0 | SE | ESign | E0
  | ST | STr | STru | SF | SFa | SFal | SFals | SN | SNu | SNul

datatype parseState = parseObjectKey | parseObjectValue | parseArrayValue

record scanner =
  step :: stepfn
  parseStack :: "parseState list"
  endTop :: bool

definition isSpace :: "char \<Rightarrow> bool" where
  "isSpace c = (c = CHR '' '' \<or> c = TAB \<or> c = CR \<or> c = NL)"

definition isDigit :: "char \<Rightarrow> bool" where
  "isDigit c = (byte CHR ''0'' \<le> byte c \<and> byte c \<le> byte CHR ''9'')"

definition isHex :: "char \<Rightarrow> bool" where
  "isHex c = (isDigit c \<or> (byte CHR ''a'' \<le> byte c \<and> byte c \<le> byte CHR ''f'')
                        \<or> (byte CHR ''A'' \<le> byte c \<and> byte c \<le> byte CHR ''F''))"

definition stateEndTop :: "scanner \<Rightarrow> char \<Rightarrow> scanner option" where
  "stateEndTop s c = (if isSpace c then Some s else None)"

definition popParseState :: "scanner \<Rightarrow> scanner" where
  "popParseState s =
    (let ps = tl (parseStack s) in
     if ps = [] then s\<lparr>parseStack := ps, step := EndTop, endTop := True\<rparr>
     else s\<lparr>parseStack := ps, step := EndValue\<rparr>)"

definition stateEndValue :: "scanner \<Rightarrow> char \<Rightarrow> scanner option" where
  "stateEndValue s c =
    (case parseStack s of
       [] \<Rightarrow> stateEndTop (s\<lparr>step := EndTop, endTop := True\<rparr>) c
     | ps # rest \<Rightarrow>
         if isSpace c then Some (s\<lparr>step := EndValue\<rparr>)
         else (case ps of
                 parseObjectKey \<Rightarrow>
                   if c = CHR '':'' then Some (s\<lparr>parseStack := parseObjectValue # rest, step := BeginValue\<rparr>)
                   else None
               | parseObjectValue \<Rightarrow>
                   if c = CHR '','' then Some (s\<lparr>parseStack := parseObjectKey # rest, step := BeginString\<rparr>)
                   else if c = CHR ''}'' then Some (popParseState s)
                   else None
               | parseArrayValue \<Rightarrow>
                   if c = CHR '','' then Some (s\<lparr>step := BeginValue\<rparr>)
                   else if c = CHR '']'' then Some (popParseState s)
                   else None))"

definition stateBeginValue :: "scanner \<Rightarrow> char \<Rightarrow> scanner option" where
  "stateBeginValue s c =
    (if isSpace c then Some s
     else if c = CHR ''{'' then Some (s\<lparr>step := BeginStringOrEmpty, parseStack := parseObjectKey # parseStack s\<rparr>)
     else if c = CHR ''['' then Some (s\<lparr>step := BeginValueOrEmpty, parseStack := parseArrayValue # parseStack s\<rparr>)
     else if c = DQ then Some (s\<lparr>step := InString\<rparr>)
     else if c = CHR ''-'' then Some (s\<lparr>step := Neg\<rparr>)
     else if c = CHR ''0'' then Some (s\<lparr>step := S0\<rparr>)
     else if c = CHR ''t'' then Some (s\<lparr>step := ST\<rparr>)
     else if c = CHR ''f'' then Some (s\<lparr>step := SF\<rparr>)
     else if c = CHR ''n'' then Some (s\<lparr>step := SN\<rparr>)
     else if byte CHR ''1'' \<le> byte c \<and> byte c \<le> byte CHR ''9'' then Some (s\<lparr>step := S1\<rparr>)
     else None)"

definition stateBeginValueOrEmpty :: "scanner \<Rightarrow> char \<Rightarrow> scanner option" where
  "stateBeginValueOrEmpty s c =
    (if isSpace c then Some s
     else if c = CHR '']'' then stateEndValue s c
     else stateBeginValue s c)"

definition stateBeginString :: "scanner \<Rightarrow> char \<Rightarrow> scanner option" where
  "stateBeginString s c =
    (if isSpace c then Some s
     else if c = DQ then Some (s\<lparr>step := InString\<rparr>)
     else None)"

definition stateBeginStringOrEmpty :: "scanner \<Rightarrow> char \<Rightarrow> scanner option" where
  "stateBeginStringOrEmpty s c =
    (if isSpace c then Some s
     else if c = CHR ''}'' then stateEndValue (s\<lparr>parseStack := parseObjectValue # tl (parseStack s)\<rparr>) c
     else stateBeginString s c)"

definition stateInString :: "scanner \<Rightarrow> char \<Rightarrow> scanner option" where
  "stateInString s c =
    (if c = DQ then Some (s\<lparr>step := EndValue\<rparr>)
     else if c = BSL then Some (s\<lparr>step := InStringEsc\<rparr>)
     else if byte c < 0x20 then None
     else Some s)"

definition stateInStringEsc :: "scanner \<Rightarrow> char \<Rightarrow> scanner option" where
  "stateInStringEsc s c =
    (if c \<in> set ''bfnrt'' \<or> c = BSL \<or> c = CHR ''/'' \<or> c = DQ then Some (s\<lparr>step := InString\<rparr>)
     else if c = CHR ''u'' then Some (s\<lparr>step := InStringEscU\<rparr>)
     else None)"

definition stateHex :: "stepfn \<Rightarrow> scanner \<Rightarrow> char \<Rightarrow> scanner option" where
  "stateHex nxt s c = (if isHex c then Some (s\<lparr>step := nxt\<rparr>) else None)"

definition state0 :: "scanner \<Rightarrow> char \<Rightarrow> scanner option" where
  "state0 s c =
    (if c = CHR ''.'' then Some (s\<lparr>step := Dot\<rparr>)
     else if c = CHR ''e'' \<or> c = CHR ''E'' then Some (s\<lparr>step := SE\<rparr>)
     else stateEndValue s c)"

definition state1 :: "scanner \<Rightarrow> char \<Rightarrow> scanner option" where
  "state1 s c = (if isDigit c then Some (s\<lparr>step := S1\<rparr>) else state0 s c)"

definition stateNeg :: "scanner \<Rightarrow> char \<Rightarrow> scanner option" where
  "stateNeg s c =
    (if c = CHR ''0'' then Some (s\<lparr>step := S0\<rparr>)
     else if byte CHR ''1'' \<le> byte c \<and> byte c \<le> byte CHR ''9'' then Some (s\<lparr>step := S1\<rparr>)
     else None)"

definition stateDot :: "scanner \<Rightarrow> char \<Rightarrow> scanner option" where
  "stateDot s c = (if isDigit c then Some (s\<lparr>step := Dot0\<rparr>) else None)"

definition stateDot0 :: "scanner \<Rightarrow> char \<Rightarrow> scanner option" where
  "stateDot0 s c =
    (if isDigit c then Some s
     else if c = CHR ''e'' \<or> c = CHR ''E'' then Some (s\<lparr>step := SE\<rparr>)
     else stateEndValue s c)"

definition stateESign :: "scanner \<Rightarrow> char \<Rightarrow> scanner option" where
  "stateESign s c = (if isDigit c then Some (s\<lparr>step := E0\<rparr>) else None)"

definition stateE :: "scanner \<Rightarrow> char \<Rightarrow> scanner option" where
  "stateE s c =
    (if c = CHR ''+'' \<or> c = CHR ''-'' then Some (s\<lparr>step := ESign\<rparr>)
     else stateESign s c)"

definition stateE0 :: "scanner \<Rightarrow> char \<Rightarrow> scanner option" where
  "stateE0 s c = (if isDigit c then Some s else stateEndValue s c)"

definition stateLit :: "char \<Rightarrow> stepfn \<Rightarrow> scanner \<Rightarrow> char \<Rightarrow> scanner option" where
  "stateLit want nxt s c = (if c = want then Some (s\<lparr>step := nxt\<rparr>) else None)"

text \<open>One call \<open>scan.step(scan, c)\<close>: the current state function applied to the byte.\<close>

definition scanStep :: "scanner \<Rightarrow> char \<Rightarrow> scanner option" where
  "scanStep s c =
    (case step s of
       BeginValueOrEmpty \<Rightarrow> stateBeginValueOrEmpty s c
     | BeginValue \<Rightarrow> stateBeginValue s c
     | BeginStringOrEmpty \<Rightarrow> stateBeginStringOrEmpty s c
     | BeginString \<Rightarrow> stateBeginString s c
     | EndValue \<Rightarrow> stateEndValue s c
     | EndTop \<Rightarrow> stateEndTop s c
     | InString \<Rightarrow> stateInString s c
     | InStringEsc \<Rightarrow> stateInStringEsc s c
     | InStringEscU \<Rightarrow> stateHex InStringEscU1 s c
     | InStringEscU1 \<Rightarrow> stateHex InStringEscU12 s c
     | InStringEscU12 \<Rightarrow> stateHex InStringEscU123 s c
     | InStringEscU123 \<Rightarrow> stateHex InString s c
     | Neg \<Rightarrow> stateNeg s c
     | S1 \<Rightarrow> state1 s c
     | S0 \<Rightarrow> state0 s c
     | Dot \<Rightarrow> stateDot s c
     | Dot0 \<Rightarrow> stateDot0 s c
     | SE \<Rightarrow> stateE s c
     | ESign \<Rightarrow> stateESign s c
     | E0 \<Rightarrow> stateE0 s c
     | ST \<Rightarrow> stateLit CHR ''r'' STr s c
     | STr \<Rightarrow> stateLit CHR ''u'' STru s c
     | STru \<Rightarrow> stateLit CHR ''e'' EndValue s c
     | SF \<Rightarrow> stateLit CHR ''a'' SFa s c
     | SFa \<Rightarrow> stateLit CHR ''l'' SFal s c
     | SFal \<Rightarrow> stateLit CHR ''s'' SFals s c
     | SFals \<Rightarrow> stateLit CHR ''e'' EndValue s c
     | SN \<Rightarrow> stateLit CHR ''u'' SNu s c
     | SNu \<Rightarrow> stateLit CHR ''l'' SNul s c
     | SNul \<Rightarrow> stateLit CHR ''l'' EndValue s c)"

fun scan :: "scanner \<Rightarrow> string \<Rightarrow> scanner option" where
  "scan s [] = Some s"
| "scan s (c # cs) = (case scanStep s c of None \<Rightarrow> None | Some s' \<Rightarrow> scan s' cs)"

definition scanReset :: scanner where
  "scanReset = \<lparr>step = BeginValue, parseStack = [], endTop = False\<rparr>"

text \<open>\<open>scan.eof()\<close>: a value still open at the end of the input is closed by one space.\<close>

definition scanEof :: "scanner \<Rightarrow> bool" where
  "scanEof s =
    (if endTop s then True
     else (case scanStep s CHR '' '' of None \<Rightarrow> False | Some s' \<Rightarrow> endTop s'))"

definition checkValid :: "string \<Rightarrow> bool" where
  "checkValid data = (case scan scanReset data of None \<Rightarrow> False | Some s \<Rightarrow> scanEof s)"

section \<open>\<open>encoding/json\<close> and zap: decoding a \<open>zap.Config\<close>\<close>

text \<open>
  The part of \<open>zap.Config\<close> the facade sets: the level, the encoding, the two lists of
  paths, and the time encoder of the encoder configuration. The fields the facade's
  text never names (development mode, sampling, initial fields and the rest) are left
  out.
\<close>

datatype Level = DebugLevel | InfoLevel | WarnLevel | ErrorLevel | DPanicLevel | PanicLevel | FatalLevel

fun levelNum :: "Level \<Rightarrow> int" where
  "levelNum DebugLevel = -1"
| "levelNum InfoLevel = 0"
| "levelNum WarnLevel = 1"
| "levelNum ErrorLevel = 2"
| "levelNum DPanicLevel = 3"
| "levelNum PanicLevel = 4"
| "levelNum FatalLevel = 5"

datatype TimeEncoder = EpochTimeEncoder | timeFormatter | ISO8601TimeEncoder

record Config =
  cfgLevel :: Level
  Encoding :: string
  OutputPaths :: "string list"
  ErrorOutputPaths :: "string list"
  EncodeTime :: TimeEncoder

datatype error = SyntaxError | UnmarshalError string | BuildError string

text \<open>
  The tokens of a JSON document that passed \<open>checkValid\<close>. A string token holds the
  bytes between its quotes, escapes undecoded.
\<close>

datatype token =
    TLBrace | TRBrace | TLBracket | TRBracket | TColon | TComma
  | TString string | TOther char

definition punct :: "char \<Rightarrow> token" where
  "punct c =
    (if c = CHR ''{'' then TLBrace else if c = CHR ''}'' then TRBrace
     else if c = CHR ''['' then TLBracket else if c = CHR '']'' then TRBracket
     else if c = CHR '':'' then TColon else if c = CHR '','' then TComma
     else TOther c)"

fun tokens :: "string \<Rightarrow> token list"
  and tokensInString :: "string \<Rightarrow> string \<Rightarrow> token list" where
  "tokens [] = []"
| "tokens (c # cs) =
    (if c = DQ then tokensInString [] cs
     else if isSpace c then tokens cs
     else punct c # tokens cs)"
| "tokensInString acc [] = []"
| "tokensInString acc (c # cs) =
    (if c = DQ then TString (rev acc) # tokens cs
     else if c = BSL then
       (case cs of [] \<Rightarrow> [] | d # ds \<Rightarrow> tokensInString (d # c # acc) ds)
     else tokensInString (c # acc) cs)"

text \<open>
  A string is plain when it is printable ASCII without a quote or a backslash: the JSON
  string literal made of it decodes to the same bytes.
\<close>

definition plainChar :: "char \<Rightarrow> bool" where
  "plainChar c = (0x20 \<le> byte c \<and> byte c \<le> 0x7E \<and> c \<noteq> DQ \<and> c \<noteq> BSL)"

definition plain :: "string \<Rightarrow> bool" where
  "plain s = list_all plainChar s"

text \<open>\<open>zapcore.Level.UnmarshalText\<close> on the four names the facade writes.\<close>

definition parseLevel :: "string \<Rightarrow> Level option" where
  "parseLevel l =
    (if l = ''DEBUG'' then Some DebugLevel
     else if l = ''INFO'' then Some InfoLevel
     else if l = ''WARN'' then Some WarnLevel
     else if l = ''ERROR'' then Some ErrorLevel
     else None)"

definition configTokens :: "string \<Rightarrow> string \<Rightarrow> string \<Rightarrow> string \<Rightarrow> token list" where
  "configTokens l e p q =
    [TLBrace, TString ''level'', TColon, TString l, TComma,
     TString ''encoding'', TColon, TString e, TComma,
     TString ''outputPaths'', TColon, TLBracket, TString p, TRBracket, TComma,
     TString ''errorOutputPaths'', TColon, TLBracket, TString q, TRBracket, TRBrace]"

definition stringOf :: "token \<Rightarrow> string" where
  "stringOf t = (case t of TString x \<Rightarrow> x | _ \<Rightarrow> [])"

text \<open>
  The decoding of the documents of the shape the facade assembles: an object with the keys
  \<open>level\<close>, \<open>encoding\<close>, \<open>outputPaths\<close>, \<open>errorOutputPaths\<close> in this order, a level
  name, a plain encoding name and one plain path in each list. On these
  \<open>json.Unmarshal\<close> into a zero \<open>zap.Config\<close> succeeds and sets the four fields; the
  encoder configuration stays zero (its time encoder is written \<open>EpochTimeEncoder\<close>, and
  \<open>InitLogger\<close> overwrites it). \<open>None\<close> on every other document.
\<close>

definition decodeConfig :: "token list \<Rightarrow> Config option" where
  "decodeConfig ts =
    (if length ts = 21 then
       (let l = stringOf (ts ! 3); e = stringOf (ts ! 7);
            p = stringOf (ts ! 12); q = stringOf (ts ! 18) in
        if ts = configTokens l e p q \<and> plain e \<and> plain p \<and> plain q then
          (case parseLevel l of
             None \<Rightarrow> None
           | Some lv \<Rightarrow>
               Some \<lparr>cfgLevel = lv, Encoding = e, OutputPaths = [p], ErrorOutputPaths = [q],
                     EncodeTime = EpochTimeEncoder\<rparr>)
        else None)
     else None)"

section \<open>The Go runtime and libraries the facade runs on\<close>

text \<open>
  What the repository's code does not decide is a parameter of the model:
  \<^item> \<open>unicodeUpper\<close>: \<open>unicode.ToUpper\<close> above ASCII (the case table of the Go release);
  \<^item> \<open>unmarshalOther\<close>: \<open>json.Unmarshal\<close> into a \<open>zap.Config\<close> on a syntactically valid
    document that is not of the shape \<open>decodeConfig\<close> decodes;
  \<^item> \<open>buildError\<close>: whether \<open>zap.Config.Build\<close> fails on a configuration (an encoder that
    is not registered, a file that cannot be opened);
  \<^item> \<open>sprintfOther\<close>: \<open>fmt.Sprintf\<close> outside \<open>simpleFormat\<close>.
\<close>

record runtime =
  unicodeUpper :: "rune \<Rightarrow> rune"
  unmarshalOther :: "string \<Rightarrow> error + Config"
  buildError :: "Config \<Rightarrow> error option"
  sprintfOther :: "string \<Rightarrow> arg list \<Rightarrow> string"

definition json_Unmarshal :: "runtime \<Rightarrow> string \<Rightarrow> error + Config" where
  "json_Unmarshal rt js =
    (if \<not> checkValid js then Inl SyntaxError
     else (case decodeConfig (tokens js) of
             Some cfg \<Rightarrow> Inr cfg
           | None \<Rightarrow> unmarshalOther rt js))"

section \<open>zap loggers\<close>

text \<open>
  A Go value of type \<open>interface{}\<close>, as far as the facade looks into it; \<open>GoMap\<close> is a
  \<open>map[string]interface{}\<close>. A field is a key and a value (\<open>Any\<close> is \<open>zap.Any\<close>).
\<close>

datatype goval = GoString string | GoInt int | GoBool bool | GoMap "string \<rightharpoonup> goval"

datatype Field = Field string goval

definition Any :: "string \<Rightarrow> goval \<Rightarrow> Field" where
  "Any key val = Field key val"

text \<open>
  A \<open>*zap.Logger\<close>: the configuration it was built from, the caller frames it skips and
  the fields bound to it. An entry is one record written to the logger's outputs. (The
  frame count is an \<open>int\<close>: the loggers the facade stores skip no frame, so adding the
  accessor's \<open>skip\<close> gives \<open>skip\<close> itself and cannot wrap around.)
\<close>

record Logger =
  config :: Config
  callerSkip :: int
  lgFields :: "Field list"

record Entry =
  entLogger :: Logger
  entLevel :: Level
  entMessage :: string
  entFields :: "Field list"

text \<open>
  The process state: the package variable \<open>defaultLogger\<close> (\<open>None\<close> is \<open>nil\<close>), the flags
  of the standard \<open>log\<close> package, and the entries written so far.
\<close>

record state =
  defaultLogger :: "Logger option"
  logFlags :: nat
  written :: "Entry list"

datatype 'a outcome = Returns 'a | Panics string | Exits

definition Build :: "runtime \<Rightarrow> Config \<Rightarrow> error + Logger" where
  "Build rt cfg =
    (case buildError rt cfg of
       Some e \<Rightarrow> Inl e
     | None \<Rightarrow> Inr \<lparr>config = cfg, callerSkip = 0, lgFields = []\<rparr>)"

definition AddCallerSkip :: "int \<Rightarrow> Logger \<Rightarrow> Logger" where
  "AddCallerSkip skip lg = lg\<lparr>callerSkip := callerSkip lg + skip\<rparr>"

definition With :: "Logger \<Rightarrow> Field list \<Rightarrow> Logger" where
  "With lg fs = lg\<lparr>lgFields := lgFields lg @ fs\<rparr>"

definition Enabled :: "Logger \<Rightarrow> Level \<Rightarrow> bool" where
  "Enabled lg lvl = (levelNum (cfgLevel (config lg)) \<le> levelNum lvl)"

text \<open>
  \<open>Logger.Debug\<close>, \<open>Info\<close>, \<open>Warn\<close>, \<open>Error\<close>, \<open>Panic\<close>, \<open>Fatal\<close>: the entry is written when
  the logger's level enables it; \<open>Panic\<close> then panics with the message and \<open>Fatal\<close> exits,
  written or not.
\<close>

definition logAt :: "Level \<Rightarrow> Logger \<Rightarrow> string \<Rightarrow> Field list \<Rightarrow> state \<Rightarrow> unit outcome \<times> state" where
  "logAt lvl lg msg fs s =
    (let s' = (if Enabled lg lvl
               then s\<lparr>written := written s @
                      [\<lparr>entLogger = lg, entLevel = lvl, entMessage = msg, entFields = lgFields lg @ fs\<rparr>]\<rparr>
               else s)
     in (if lvl = PanicLevel then Panics msg else if lvl = FatalLevel then Exits else Returns (), s'))"

section \<open>The facade: \<open>InitLogger\<close>\<close>

text \<open>The two raw string literals \<open>InitLogger\<close> formats, byte for byte.\<close>

definition quoted :: "string \<Rightarrow> string" where
  "quoted x = DQ # x @ [DQ]"

definition indentA :: string where
  "indentA = ''      '' @ [TAB, TAB]"

definition indentB :: string where
  "indentB = ''            ''"

definition fileTemplate :: string where
  "fileTemplate =
     ''{'' @ [NL]
     @ indentA @ quoted ''level'' @ '': '' @ quoted ''%s'' @ '','' @ [NL]
     @ indentA @ quoted ''encoding'' @ '': '' @ quoted ''%s'' @ '','' @ [NL]
     @ indentA @ quoted ''outputPaths'' @ '': ['' @ quoted ''%s'' @ ''],'' @ [NL]
     @ indentA @ quoted ''errorOutputPaths'' @ '': ['' @ quoted ''%s'' @ '']'' @ [NL]
     @ ''      '' @ [TAB] @ ''}''"

definition consoleTemplate :: string where
  "consoleTemplate =
     ''{'' @ [NL]
     @ indentA @ quoted ''level'' @ '': '' @ quoted ''%s'' @ '','' @ [NL]
     @ indentB @ quoted ''encoding'' @ '': '' @ quoted ''%s'' @ '','' @ [NL]
     @ indentA @ quoted ''outputPaths'' @ '': ['' @ quoted ''stdout'' @ ''],'' @ [NL]
     @ indentB @ quoted ''errorOutputPaths'' @ '': ['' @ quoted ''stdout'' @ '']'' @ [NL]
     @ [TAB, TAB] @ ''}''"

text \<open>The flags of the standard \<open>log\<close> package (distinct bits, so their union is a sum).\<close>

definition Lmicroseconds :: nat where
  "Lmicroseconds = 4"

definition Lshortfile :: nat where
  "Lshortfile = 16"

definition LstdFlags :: nat where
  "LstdFlags = 3"

text \<open>The steps of \<open>InitLogger\<close> before the configuration is parsed.\<close>

definition resolveFilename :: "bool \<Rightarrow> string \<Rightarrow> string" where
  "resolveFilename isSave filename = (if isSave \<and> filename = [] then ''out.log'' else filename)"

definition levelNameOf :: "(rune \<Rightarrow> rune) \<Rightarrow> string \<Rightarrow> string" where
  "levelNameOf tbl level =
    (let u = strings_ToUpper tbl level in
     if u = ''DEBUG'' then ''DEBUG''
     else if u = ''INFO'' then ''INFO''
     else if u = ''WARN'' then ''WARN''
     else if u = ''ERROR'' then ''ERROR''
     else ''DEBUG'')"

definition resolveEncoding :: "bool \<Rightarrow> string list \<Rightarrow> string" where
  "resolveEncoding isSave encodingType =
    (if isSave then ''json''
     else if length encodingType > 0 \<and> encodingType ! 0 = ''json'' then ''json''
     else ''console'')"

definition configJSON :: "runtime \<Rightarrow> bool \<Rightarrow> string \<Rightarrow> string \<Rightarrow> string \<Rightarrow> string" where
  "configJSON rt isSave levelName encoding filename =
    (if isSave
     then Sprintf (sprintfOther rt) fileTemplate
            [StringArg levelName, StringArg encoding, StringArg filename, StringArg filename]
     else Sprintf (sprintfOther rt) consoleTemplate [StringArg levelName, StringArg encoding])"

definition finishMessage :: "runtime \<Rightarrow> bool \<Rightarrow> string \<Rightarrow> string \<Rightarrow> string \<Rightarrow> string" where
  "finishMessage rt isSave filename level encoding =
    (if isSave
     then Sprintf (sprintfOther rt)
            ''initialize logger finish, base config is isSave=%t, filename=%s, level=%s, encoding=%s''
            [BoolArg isSave, StringArg filename, StringArg level, StringArg encoding]
     else Sprintf (sprintfOther rt)
            ''initialize logger finish, base config is isSave=%t, level=%s, encoding=%s''
            [BoolArg isSave, StringArg level, StringArg encoding])"

text \<open>
  \<open>InitLogger\<close> returns its error (\<open>None\<close> is \<open>nil\<close>) and the new state. \<open>Build\<close> returns a
  \<open>nil\<close> logger with its error, and the assignment stores it in \<open>defaultLogger\<close> before
  the error is looked at. The closing call of \<open>Infof\<close> finds \<open>defaultLogger\<close> set, so
  its \<open>getLogger()\<close> is \<open>defaultLogger.WithOptions(zap.AddCallerSkip(1))\<close>; the lemma
  \<open>InitLogger_calls_Infof\<close> below states that this is \<open>Infof\<close> on that state.
\<close>

definition InitLogger ::
  "runtime \<Rightarrow> bool \<Rightarrow> string \<Rightarrow> string \<Rightarrow> string list \<Rightarrow> state \<Rightarrow> error option \<times> state" where
  "InitLogger rt isSave filename0 level encodingType s0 =
    (let s = s0\<lparr>logFlags := Lmicroseconds + Lshortfile + LstdFlags\<rparr>;
         filename = resolveFilename isSave filename0;
         levelName = levelNameOf (unicodeUpper rt) level;
         encoding = resolveEncoding isSave encodingType;
         js = configJSON rt isSave levelName encoding filename
     in case json_Unmarshal rt js of
          Inl err \<Rightarrow> (Some err, s)
        | Inr config0 \<Rightarrow>
            (let cfg = config0\<lparr>EncodeTime := (if isSave then ISO8601TimeEncoder else timeFormatter)\<rparr>
             in case Build rt cfg of
                  Inl err \<Rightarrow> (Some err, s\<lparr>defaultLogger := None\<rparr>)
                | Inr lg \<Rightarrow>
                    (None,
                     snd (logAt InfoLevel (AddCallerSkip 1 lg)
                            (finishMessage rt isSave filename level encoding) []
                            (s\<lparr>defaultLogger := Some lg\<rparr>)))))"

section \<open>The facade: accessors and logging functions\<close>

definition andThen ::
  "'a outcome \<times> state \<Rightarrow> ('a \<Rightarrow> state \<Rightarrow> 'b outcome \<times> state) \<Rightarrow> 'b outcome \<times> state" where
  "andThen r f =
    (case r of
       (Returns x, s) \<Rightarrow> f x s
     | (Panics m, s) \<Rightarrow> (Panics m, s)
     | (Exits, s) \<Rightarrow> (Exits, s))"

text \<open>
  \<open>defaultLogger.WithOptions(zap.AddCallerSkip(skip))\<close>; on a \<open>nil\<close> logger the call
  dereferences \<open>nil\<close> and panics.
\<close>

definition WithOptions_AddCallerSkip :: "int \<Rightarrow> state \<Rightarrow> Logger outcome \<times> state" where
  "WithOptions_AddCallerSkip skip s =
    (case defaultLogger s of
       None \<Rightarrow> (Panics ''invalid memory address or nil pointer dereference'', s)
     | Some lg \<Rightarrow> (Returns (AddCallerSkip skip lg), s))"

text \<open>\<open>log.Fatal(err)\<close> prints the error and exits the process.\<close>

definition getLogger :: "runtime \<Rightarrow> state \<Rightarrow> Logger outcome \<times> state" where
  "getLogger rt s =
    (if defaultLogger s = None then
       (case InitLogger rt False [] ''debug'' [] s of
          (Some err, s') \<Rightarrow> (Exits, s')
        | (None, s') \<Rightarrow> WithOptions_AddCallerSkip 1 s')
     else WithOptions_AddCallerSkip 1 s)"

definition GetLogger :: "runtime \<Rightarrow> int \<Rightarrow> state \<Rightarrow> Logger outcome \<times> state" where
  "GetLogger rt skip s =
    (if defaultLogger s = None then
       (case InitLogger rt False [] ''debug'' [] s of
          (Some err, s') \<Rightarrow> (Exits, s')
        | (None, s') \<Rightarrow> WithOptions_AddCallerSkip skip s')
     else WithOptions_AddCallerSkip skip s)"

definition Debug :: "runtime \<Rightarrow> string \<Rightarrow> Field list \<Rightarrow> state \<Rightarrow> unit outcome \<times> state" where
  "Debug rt msg fs s = andThen (getLogger rt s) (\<lambda>lg. logAt DebugLevel lg msg fs)"

definition Info :: "runtime \<Rightarrow> string \<Rightarrow> Field list \<Rightarrow> state \<Rightarrow> unit outcome \<times> state" where
  "Info rt msg fs s = andThen (getLogger rt s) (\<lambda>lg. logAt InfoLevel lg msg fs)"

definition Warn :: "runtime \<Rightarrow> string \<Rightarrow> Field list \<Rightarrow> state \<Rightarrow> unit outcome \<times> state" where
  "Warn rt msg fs s = andThen (getLogger rt s) (\<lambda>lg. logAt WarnLevel lg msg fs)"

definition Error :: "runtime \<Rightarrow> string \<Rightarrow> Field list \<Rightarrow> state \<Rightarrow> unit outcome \<times> state" where
  "Error rt msg fs s = andThen (getLogger rt s) (\<lambda>lg. logAt ErrorLevel lg msg fs)"

definition Panic :: "runtime \<Rightarrow> string \<Rightarrow> Field list \<Rightarrow> state \<Rightarrow> unit outcome \<times> state" where
  "Panic rt msg fs s = andThen (getLogger rt s) (\<lambda>lg. logAt PanicLevel lg msg fs)"

definition Fatal :: "runtime \<Rightarrow> string \<Rightarrow> Field list \<Rightarrow> state \<Rightarrow> unit outcome \<times> state" where
  "Fatal rt msg fs s = andThen (getLogger rt s) (\<lambda>lg. logAt FatalLevel lg msg fs)"

definition Debugf :: "runtime \<Rightarrow> string \<Rightarrow> arg list \<Rightarrow> state \<Rightarrow> unit outcome \<times> state" where
  "Debugf rt format a s =
    andThen (getLogger rt s) (\<lambda>lg. logAt DebugLevel lg (Sprintf (sprintfOther rt) format a) [])"

definition Infof :: "runtime \<Rightarrow> string \<Rightarrow> arg list \<Rightarrow> state \<Rightarrow> unit outcome \<times> state" where
  "Infof rt format a s =
    andThen (getLogger rt s) (\<lambda>lg. logAt InfoLevel lg (Sprintf (sprintfOther rt) format a) [])"

definition Warnf :: "runtime \<Rightarrow> string \<Rightarrow> arg list \<Rightarrow> state \<Rightarrow> unit outcome \<times> state" where
  "Warnf rt format a s =
    andThen (getLogger rt s) (\<lambda>lg. logAt WarnLevel lg (Sprintf (sprintfOther rt) format a) [])"

definition Errorf :: "runtime \<Rightarrow> string \<Rightarrow> arg list \<Rightarrow> state \<Rightarrow> unit outcome \<times> state" where
  "Errorf rt format a s =
    andThen (getLogger rt s) (\<lambda>lg. logAt ErrorLevel lg (Sprintf (sprintfOther rt) format a) [])"

definition Fatalf :: "runtime \<Rightarrow> string \<Rightarrow> arg list \<Rightarrow> state \<Rightarrow> unit outcome \<times> state" where
  "Fatalf rt format a s =
    andThen (getLogger rt s) (\<lambda>lg. logAt FatalLevel lg (Sprintf (sprintfOther rt) format a) [])"

definition WithFields :: "runtime \<Rightarrow> Field list \<Rightarrow> state \<Rightarrow> Logger outcome \<times> state" where
  "WithFields rt fs s = andThen (getLogger rt s) (\<lambda>lg s'. (Returns (With lg fs), s'))"

text \<open>
  The functions the package defines for a zap level: the plain one and the formatted
  one. The package has no function for \<open>DPanic\<close>, and no \<open>Panicf\<close>.
\<close>

fun leveled ::
  "Level \<Rightarrow> (runtime \<Rightarrow> string \<Rightarrow> Field list \<Rightarrow> state \<Rightarrow> unit outcome \<times> state) option" where
  "leveled DebugLevel = Some Debug"
| "leveled InfoLevel = Some Info"
| "leveled WarnLevel = Some Warn"
| "leveled ErrorLevel = Some Error"
| "leveled DPanicLevel = None"
| "leveled PanicLevel = Some Panic"
| "leveled FatalLevel = Some Fatal"

fun formatted ::
  "Level \<Rightarrow> (runtime \<Rightarrow> string \<Rightarrow> arg list \<Rightarrow> state \<Rightarrow> unit outcome \<times> state) option" where
  "formatted DebugLevel = Some Debugf"
| "formatted InfoLevel = Some Infof"
| "formatted WarnLevel = Some Warnf"
| "formatted ErrorLevel = Some Errorf"
| "formatted DPanicLevel = None"
| "formatted PanicLevel = None"
| "formatted FatalLevel = Some Fatalf"

section \<open>The facade: \<open>Ctx\<close>\<close>

text \<open>
  A \<open>context.Context\<close> is \<open>nil\<close> (\<open>None\<close>) or gives each string key its value, \<open>nil\<close>
  (\<open>None\<close>) for a key it does not hold. \<open>collect\<close> is the loop over \<open>keys\<close>.
\<close>

type_synonym Context = "(string \<rightharpoonup> goval) option"

definition keys :: "string list" where
  "keys = [''X-B3-TraceId'', ''X-B3-SpanId'', ''X-B3-ParentSpanId'', ''X-Span-Name'']"

fun collect :: "(string \<rightharpoonup> goval) \<Rightarrow> string list \<Rightarrow> (string \<rightharpoonup> goval) \<Rightarrow> (string \<rightharpoonup> goval)" where
  "collect c [] fieldsMap = fieldsMap"
| "collect c (key # ks) fieldsMap =
    (case c key of
       Some v \<Rightarrow> collect c ks (fieldsMap(key \<mapsto> v))
     | None \<Rightarrow> collect c ks fieldsMap)"

definition contextFields :: "Context \<Rightarrow> (string \<rightharpoonup> goval)" where
  "contextFields ctx = (case ctx of None \<Rightarrow> Map.empty | Some c \<Rightarrow> collect c keys Map.empty)"

definition Ctx :: "runtime \<Rightarrow> Context \<Rightarrow> state \<Rightarrow> Logger outcome \<times> state" where
  "Ctx rt ctx s =
    (let fieldsMap = contextFields ctx in
     if fieldsMap \<noteq> Map.empty
     then andThen (getLogger rt s) (\<lambda>lg s'. (Returns (With lg [Any ''context'' (GoMap fieldsMap)]), s'))
     else getLogger rt s)"

section \<open>Notions used to state the properties\<close>

text \<open>
  The spec's reading of the level argument: a case variation of a lower-case word has,
  at each position, the word's letter or its upper-case form; the level is the word's
  whose case variation the argument is, and \<open>DEBUG\<close> otherwise.
\<close>

definition caseVariation :: "string \<Rightarrow> string \<Rightarrow> bool" where
  "caseVariation w s = list_all2 (\<lambda>a c. c = a \<or> c = asciiUpper a) w s"

definition lowerCase :: "char \<Rightarrow> bool" where
  "lowerCase c = (byte CHR ''a'' \<le> byte c \<and> byte c \<le> byte CHR ''z'')"

definition specLevelName :: "string \<Rightarrow> string" where
  "specLevelName level =
    (if caseVariation ''debug'' level then ''DEBUG''
     else if caseVariation ''info'' level then ''INFO''
     else if caseVariation ''warn'' level then ''WARN''
     else if caseVariation ''error'' level then ''ERROR''
     else ''DEBUG'')"

text \<open>
  The zap level of the resolved level name, and the configuration \<open>InitLogger\<close> means to
  build: what its JSON text says when the file name is plain, with the time encoder it
  sets afterwards.
\<close>

definition resolvedLevel :: "(rune \<Rightarrow> rune) \<Rightarrow> string \<Rightarrow> Level" where
  "resolvedLevel tbl level =
    (case parseLevel (levelNameOf tbl level) of Some lv \<Rightarrow> lv | None \<Rightarrow> DebugLevel)"

definition resolvedConfig :: "(rune \<Rightarrow> rune) \<Rightarrow> bool \<Rightarrow> string \<Rightarrow> string \<Rightarrow> string list \<Rightarrow> Config" where
  "resolvedConfig tbl isSave filename level encodingType =
    \<lparr>cfgLevel = resolvedLevel tbl level,
     Encoding = resolveEncoding isSave encodingType,
     OutputPaths = (if isSave then [resolveFilename isSave filename] else [''stdout'']),
     ErrorOutputPaths = (if isSave then [resolveFilename isSave filename] else [''stdout'']),
     EncodeTime = (if isSave then ISO8601TimeEncoder else timeFormatter)\<rparr>"

text \<open>The configuration of the lazy default initialisation \<open>InitLogger(false, "", "debug")\<close>.\<close>

definition defaultConfig :: Config where
  "defaultConfig =
    \<lparr>cfgLevel = DebugLevel, Encoding = ''console'', OutputPaths = [''stdout''],
     ErrorOutputPaths = [''stdout''], EncodeTime = timeFormatter\<rparr>"

definition built :: "Config \<Rightarrow> Logger" where
  "built cfg = \<lparr>config = cfg, callerSkip = 0, lgFields = []\<rparr>"

text \<open>The state after a successful \<open>InitLogger\<close> that built \<open>cfg\<close> and logged \<open>msg\<close>.\<close>

definition initialised :: "Config \<Rightarrow> string \<Rightarrow> state \<Rightarrow> state" where
  "initialised cfg msg s =
    s\<lparr>logFlags := Lmicroseconds + Lshortfile + LstdFlags,
      defaultLogger := Some (built cfg),
      written := written s @
        (if Enabled (built cfg) InfoLevel
         then [\<lparr>entLogger = AddCallerSkip 1 (built cfg), entLevel = InfoLevel,
                 entMessage = msg, entFields = []\<rparr>]
         else [])\<rparr>"

section \<open>Concrete inputs\<close>

text \<open>
  A case table that holds Go's entry for U+0131, LATIN SMALL LETTER DOTLESS I
  (\<open>{0x0131, 0x0131, d{-232, 0, -232}}\<close> in \<open>unicode.CaseRanges\<close>: its upper case is
  U+0049, the letter I) and leaves every other rune alone.
\<close>

definition upperDotlessI :: "rune \<Rightarrow> rune" where
  "upperDotlessI r = (if r = 0x131 then 0x49 else r)"

text \<open>
  A runtime in which every build succeeds, one in which every build fails, and the state
  of a process that has not logged yet (\<open>LstdFlags\<close> is the \<open>log\<close> package's default).
\<close>

definition failAll :: "string \<Rightarrow> error + Config" where
  "failAll js = Inl (UnmarshalError js)"

definition noError :: "Config \<Rightarrow> error option" where
  "noError cfg = None"

definition cannotOpen :: "Config \<Rightarrow> error option" where
  "cannotOpen cfg = Some (BuildError ''open sink: permission denied'')"

definition verbatim :: "string \<Rightarrow> arg list \<Rightarrow> string" where
  "verbatim format a = format"

definition goodRuntime :: runtime where
  "goodRuntime =
    \<lparr>unicodeUpper = upperDotlessI, unmarshalOther = failAll,
     buildError = noError, sprintfOther = verbatim\<rparr>"

definition badRuntime :: runtime where
  "badRuntime =
    \<lparr>unicodeUpper = upperDotlessI, unmarshalOther = failAll,
     buildError = cannotOpen, sprintfOther = verbatim\<rparr>"

definition startState :: state where
  "startState = \<lparr>defaultLogger = None, logFlags = LstdFlags, written = []\<rparr>"

text \<open>A logger built for the console at the debug level, and a process that holds it.\<close>

definition consoleLogger :: Logger where
  "consoleLogger = built (resolvedConfig upperDotlessI False [] ''debug'' [])"

definition readyState :: state where
  "readyState =
    \<lparr>defaultLogger = Some consoleLogger, logFlags = Lmicroseconds + Lshortfile + LstdFlags,
     written = []\<rparr>"

text \<open>
  The file name \<open>a\"b\<close> (four bytes: a, backslash, quote, b), and a runtime whose
  \<open>json.Unmarshal\<close> decodes the document assembled from it as Go does: the path is
  \<open>a"b\<close>.
\<close>

definition escapedName :: string where
  "escapedName = [CHR ''a'', BSL, DQ, CHR ''b'']"

definition decodeEscaped :: "string \<Rightarrow> error + Config" where
  "decodeEscaped js =
    Inr \<lparr>cfgLevel = DebugLevel, Encoding = ''json'',
         OutputPaths = [[CHR ''a'', DQ, CHR ''b'']], ErrorOutputPaths = [[CHR ''a'', DQ, CHR ''b'']],
         EncodeTime = EpochTimeEncoder\<rparr>"

definition escapedRuntime :: runtime where
  "escapedRuntime =
    \<lparr>unicodeUpper = upperDotlessI, unmarshalOther = decodeEscaped,
     buildError = noError, sprintfOther = verbatim\<rparr>"

section \<open>Evaluating the templates, the scanner and the decoder\<close>

lemmas char_defs = DQ_def BSL_def NL_def TAB_def CR_def

lemmas scan_defs = scanStep_def stateBeginValue_def stateBeginValueOrEmpty_def
  stateBeginString_def stateBeginStringOrEmpty_def stateEndValue_def stateEndTop_def
  popParseState_def stateInString_def stateInStringEsc_def isSpace_def byte_def

lemmas template_defs = quoted_def indentA_def indentB_def

lemma configJSON_console:
  "configJSON rt False L e f =
     ''{'' @ [NL] @ indentA @ quoted ''level'' @ '': '' @ quoted L @ '','' @ [NL]
     @ indentB @ quoted ''encoding'' @ '': '' @ quoted e @ '','' @ [NL]
     @ indentA @ quoted ''outputPaths'' @ '': ['' @ quoted ''stdout'' @ ''],'' @ [NL]
     @ indentB @ quoted ''errorOutputPaths'' @ '': ['' @ quoted ''stdout'' @ '']'' @ [NL]
     @ [TAB, TAB] @ ''}''"
  by (simp add: configJSON_def Sprintf_def consoleTemplate_def template_defs char_defs verb_def)

lemma configJSON_file:
  "configJSON rt True L e f =
     ''{'' @ [NL] @ indentA @ quoted ''level'' @ '': '' @ quoted L @ '','' @ [NL]
     @ indentA @ quoted ''encoding'' @ '': '' @ quoted e @ '','' @ [NL]
     @ indentA @ quoted ''outputPaths'' @ '': ['' @ quoted f @ ''],'' @ [NL]
     @ indentA @ quoted ''errorOutputPaths'' @ '': ['' @ quoted f @ '']'' @ [NL]
     @ ''      '' @ [TAB] @ ''}''"
  by (simp add: configJSON_def Sprintf_def fileTemplate_def template_defs char_defs verb_def)

lemma scan_append:
  "scan s (xs @ ys) = (case scan s xs of None \<Rightarrow> None | Some s' \<Rightarrow> scan s' ys)"
  by (induction xs arbitrary: s) (auto split: option.splits)

lemma scan_plain:
  "plain x \<Longrightarrow> step s = InString \<Longrightarrow> scan s x = Some s"
  by (induction x) (auto simp: plain_def plainChar_def scanStep_def stateInString_def)

lemma scan_plain_append:
  "plain x \<Longrightarrow> step s = InString \<Longrightarrow> scan s (x @ ys) = scan s ys"
  by (simp add: scan_append scan_plain)

lemma tokensInString_plain:
  "plain x \<Longrightarrow> tokensInString acc (x @ DQ # rest) = TString (rev acc @ x) # tokens rest"
  by (induction x arbitrary: acc) (auto simp: plain_def plainChar_def)

lemma parseLevel_plain:
  "parseLevel L = Some lv \<Longrightarrow> plain L"
  by (auto simp: parseLevel_def plain_def plainChar_def byte_def char_defs split: if_splits)

lemma plain_stdout: "plain ''stdout''"
  by (simp add: plain_def plainChar_def byte_def char_defs)

lemma plain_resolveEncoding: "plain (resolveEncoding isSave et)"
  by (simp add: resolveEncoding_def plain_def plainChar_def byte_def char_defs)

lemma checkValid_console:
  "plain L \<Longrightarrow> plain e \<Longrightarrow> checkValid (configJSON rt False L e f)"
  by (simp add: configJSON_console checkValid_def scanReset_def scanEof_def template_defs
      scan_plain_append char_defs scan_defs)

lemma checkValid_file:
  "plain L \<Longrightarrow> plain e \<Longrightarrow> plain f \<Longrightarrow> checkValid (configJSON rt True L e f)"
  by (simp add: configJSON_file checkValid_def scanReset_def scanEof_def template_defs
      scan_plain_append char_defs scan_defs)

lemma decode_console:
  "parseLevel L = Some lv \<Longrightarrow> plain e \<Longrightarrow>
   decodeConfig (tokens (configJSON rt False L e f)) =
     Some \<lparr>cfgLevel = lv, Encoding = e, OutputPaths = [''stdout''],
            ErrorOutputPaths = [''stdout''], EncodeTime = EpochTimeEncoder\<rparr>"
  using parseLevel_plain[of L lv]
  by (simp add: configJSON_console template_defs decodeConfig_def configTokens_def stringOf_def
      Let_def char_defs isSpace_def punct_def tokensInString_plain[unfolded char_defs] plain_stdout)

lemma decode_file:
  "parseLevel L = Some lv \<Longrightarrow> plain e \<Longrightarrow> plain f \<Longrightarrow>
   decodeConfig (tokens (configJSON rt True L e f)) =
     Some \<lparr>cfgLevel = lv, Encoding = e, OutputPaths = [f],
            ErrorOutputPaths = [f], EncodeTime = EpochTimeEncoder\<rparr>"
  using parseLevel_plain[of L lv]
  by (simp add: configJSON_file template_defs decodeConfig_def configTokens_def stringOf_def
      Let_def char_defs isSpace_def punct_def tokensInString_plain[unfolded char_defs] plain_stdout)

lemma unmarshal_console:
  "parseLevel L = Some lv \<Longrightarrow> plain e \<Longrightarrow>
   json_Unmarshal rt (configJSON rt False L e f) =
     Inr \<lparr>cfgLevel = lv, Encoding = e, OutputPaths = [''stdout''],
            ErrorOutputPaths = [''stdout''], EncodeTime = EpochTimeEncoder\<rparr>"
  by (simp add: json_Unmarshal_def checkValid_console decode_console parseLevel_plain)

lemma unmarshal_file:
  "parseLevel L = Some lv \<Longrightarrow> plain e \<Longrightarrow> plain f \<Longrightarrow>
   json_Unmarshal rt (configJSON rt True L e f) =
     Inr \<lparr>cfgLevel = lv, Encoding = e, OutputPaths = [f],
            ErrorOutputPaths = [f], EncodeTime = EpochTimeEncoder\<rparr>"
  by (simp add: json_Unmarshal_def checkValid_file decode_file parseLevel_plain)

section \<open>What \<open>InitLogger\<close> does\<close>

lemma levelNameOf_cases:
  "levelNameOf tbl level = ''DEBUG'' \<or> levelNameOf tbl level = ''INFO''
   \<or> levelNameOf tbl level = ''WARN'' \<or> levelNameOf tbl level = ''ERROR''"
  by (simp add: levelNameOf_def Let_def)

lemma parseLevel_levelNameOf:
  "parseLevel (levelNameOf tbl level) = Some (resolvedLevel tbl level)"
  using levelNameOf_cases[of tbl level] by (auto simp: resolvedLevel_def parseLevel_def)

lemma logAt_Info:
  "logAt InfoLevel (AddCallerSkip 1 (built cfg)) msg [] (s\<lparr>defaultLogger := Some (built cfg)\<rparr>) =
     (Returns (),
      s\<lparr>defaultLogger := Some (built cfg),
        written := written s @
          (if Enabled (built cfg) InfoLevel
           then [\<lparr>entLogger = AddCallerSkip 1 (built cfg), entLevel = InfoLevel,
                   entMessage = msg, entFields = []\<rparr>]
           else [])\<rparr>)"
  by (simp add: logAt_def Enabled_def AddCallerSkip_def built_def)

lemma InitLogger_console:
  "InitLogger rt False f level et s =
    (case buildError rt (resolvedConfig (unicodeUpper rt) False f level et) of
       Some e \<Rightarrow> (Some e, s\<lparr>logFlags := Lmicroseconds + Lshortfile + LstdFlags, defaultLogger := None\<rparr>)
     | None \<Rightarrow>
         (None, initialised (resolvedConfig (unicodeUpper rt) False f level et)
                  (finishMessage rt False f level (resolveEncoding False et)) s))"
  by (simp add: InitLogger_def Let_def unmarshal_console[OF parseLevel_levelNameOf plain_resolveEncoding]
      Build_def resolvedConfig_def resolveFilename_def built_def[symmetric] logAt_Info initialised_def
      split: option.splits)

lemma InitLogger_file:
  "plain (resolveFilename True f) \<Longrightarrow>
   InitLogger rt True f level et s =
    (case buildError rt (resolvedConfig (unicodeUpper rt) True f level et) of
       Some e \<Rightarrow> (Some e, s\<lparr>logFlags := Lmicroseconds + Lshortfile + LstdFlags, defaultLogger := None\<rparr>)
     | None \<Rightarrow>
         (None, initialised (resolvedConfig (unicodeUpper rt) True f level et)
                  (finishMessage rt True (resolveFilename True f) level (resolveEncoding True et)) s))"
  by (simp add: InitLogger_def Let_def unmarshal_file[OF parseLevel_levelNameOf plain_resolveEncoding]
      Build_def resolvedConfig_def built_def[symmetric] logAt_Info initialised_def
      split: option.splits)

lemma initialised_sel:
  "defaultLogger (initialised cfg msg s) = Some (built cfg)"
  "config (built cfg) = cfg"
  by (simp_all add: initialised_def built_def)

lemma InitLogger_console_success:
  assumes "fst (InitLogger rt False f level et s) = None"
  shows "snd (InitLogger rt False f level et s) =
           initialised (resolvedConfig (unicodeUpper rt) False f level et)
             (finishMessage rt False f level (resolveEncoding False et)) s"
  using assms by (simp add: InitLogger_console split: option.splits)

lemma InitLogger_file_success:
  assumes "plain (resolveFilename True f)" "fst (InitLogger rt True f level et s) = None"
  shows "snd (InitLogger rt True f level et s) =
           initialised (resolvedConfig (unicodeUpper rt) True f level et)
             (finishMessage rt True (resolveFilename True f) level (resolveEncoding True et)) s"
  using assms by (simp add: InitLogger_file split: option.splits)


lemma good_file_success:
  "plain (resolveFilename True f) \<Longrightarrow> fst (InitLogger goodRuntime True f level et s) = None"
  by (simp add: InitLogger_file goodRuntime_def noError_def)

lemma good_console_success:
  "fst (InitLogger goodRuntime False f level et s) = None"
  by (simp add: InitLogger_console goodRuntime_def noError_def)



lemma levelNameOf_examples:
  "levelNameOf upperDotlessI ''error'' = ''ERROR''"
  "levelNameOf upperDotlessI ''info'' = ''INFO''"
  "levelNameOf upperDotlessI ''debug'' = ''DEBUG''"
  by (simp_all add: levelNameOf_def strings_ToUpper_def isASCII_def asciiUpper_def byte_def Let_def
      char_of_eq_iff)

lemma resolvedLevel_debug: "resolvedLevel tbl ''debug'' = DebugLevel"
  by (simp add: resolvedLevel_def parseLevel_def levelNameOf_def strings_ToUpper_def isASCII_def
      asciiUpper_def byte_def Let_def char_of_eq_iff)

lemma resolvedConfig_default: "resolvedConfig tbl False [] ''debug'' [] = defaultConfig"
  by (simp add: resolvedConfig_def defaultConfig_def resolvedLevel_debug resolveEncoding_def)

lemma plainChar_not_special:
  "plainChar c \<Longrightarrow> c \<noteq> TAB \<and> c \<noteq> CR \<and> c \<noteq> NL \<and> c \<noteq> DQ \<and> c \<noteq> BSL"
  by (auto simp: plainChar_def byte_def char_defs)

lemma checkValid_quote_in_name:
  assumes "plain L" "plain e" "plain p" "plain q" "q = [] \<or> hd q \<notin> set '' ,]''"
  shows "\<not> checkValid (configJSON rt True L e (p @ DQ # q))"
proof (cases q)
  case Nil
  with assms(1-3) show ?thesis
    by (simp add: configJSON_file checkValid_def scanReset_def scanEof_def template_defs
        scan_plain_append char_defs scan_defs)
next
  case (Cons c q')
  with assms(4,5) have c: "plainChar c" "c \<noteq> CHR '' ''" "c \<noteq> CHR '',''" "c \<noteq> CHR '']''"
    by (simp_all add: plain_def)
  from plainChar_not_special[OF c(1)] have c': "c \<noteq> CHR 0x09" "c \<noteq> CHR 0x0D" "c \<noteq> CHR 0x0A"
    by (simp_all add: char_defs)
  from assms(1-3) c c' show ?thesis
    by (simp add: Cons configJSON_file checkValid_def scanReset_def scanEof_def template_defs
        scan_plain_append char_defs scan_defs)
qed

lemma checkValid_trailing_backslash:
  assumes "plain L" "plain e" "plain p"
  shows "\<not> checkValid (configJSON rt True L e (p @ [BSL]))"
  using assms
  by (simp add: configJSON_file checkValid_def scanReset_def scanEof_def template_defs
      scan_plain_append char_defs scan_defs)

lemma InitLogger_syntax_error:
  assumes "\<not> checkValid (configJSON rt isSave (levelNameOf (unicodeUpper rt) level)
                    (resolveEncoding isSave et) (resolveFilename isSave f))"
  shows "InitLogger rt isSave f level et s =
           (Some SyntaxError, s\<lparr>logFlags := Lmicroseconds + Lshortfile + LstdFlags\<rparr>)"
  using assms by (simp add: InitLogger_def Let_def json_Unmarshal_def)

lemma plain_levelNameOf: "plain (levelNameOf tbl level)"
  using parseLevel_plain[OF parseLevel_levelNameOf] .

lemma escaped_valid:
  "checkValid (configJSON rt True ''DEBUG'' ''json'' escapedName)"
  by (simp add: configJSON_file checkValid_def scanReset_def scanEof_def template_defs
      escapedName_def char_defs scan_defs)

lemma escaped_not_decoded:
  "decodeConfig (tokens (configJSON rt True ''DEBUG'' ''json'' escapedName)) = None"
  by (simp add: configJSON_file template_defs escapedName_def decodeConfig_def configTokens_def
      stringOf_def Let_def char_defs isSpace_def punct_def plain_def plainChar_def byte_def)


lemma getLogger_ready:
  "defaultLogger s = Some lg \<Longrightarrow> getLogger rt s = (Returns (AddCallerSkip 1 lg), s)"
  by (simp add: getLogger_def WithOptions_AddCallerSkip_def)

lemma InitLogger_calls_Infof:
  "defaultLogger s = Some lg \<Longrightarrow>
   Infof rt format a s = logAt InfoLevel (AddCallerSkip 1 lg) (Sprintf (sprintfOther rt) format a) [] s"
  by (simp add: Infof_def getLogger_ready andThen_def)

section \<open>The level argument\<close>

lemma eq_char_of_iff: "c = char_of n \<longleftrightarrow> take_bit 8 n = of_char c"
  using char_of_eq_iff[of n c] by auto

lemma asciiUpper_eq_iff:
  assumes "lowerCase a"
  shows "asciiUpper c = asciiUpper a \<longleftrightarrow> c = a \<or> c = asciiUpper a"
proof -
  have a: "97 \<le> (of_char a :: nat)" "(of_char a :: nat) \<le> 122"
    using assms by (simp_all add: lowerCase_def byte_def)
  have ua: "of_char (asciiUpper a) = (of_char a :: nat) - 32"
    using a by (simp add: asciiUpper_def byte_def)
  show ?thesis
  proof (cases "lowerCase c")
    case True
    then have c: "97 \<le> (of_char c :: nat)" "(of_char c :: nat) \<le> 122"
      by (simp_all add: lowerCase_def byte_def)
    have uc: "of_char (asciiUpper c) = (of_char c :: nat) - 32"
      using c by (simp add: asciiUpper_def byte_def)
    have "asciiUpper c = asciiUpper a \<longleftrightarrow> (of_char (asciiUpper c) :: nat) = of_char (asciiUpper a)"
      by simp
    also have "\<dots> \<longleftrightarrow> (of_char c :: nat) = of_char a"
      using a c by (simp only: ua uc) arith
    also have "\<dots> \<longleftrightarrow> c = a" by simp
    finally have 1: "asciiUpper c = asciiUpper a \<longleftrightarrow> c = a" .
    have "(of_char c :: nat) \<noteq> of_char (asciiUpper a)"
      using a c by (auto simp: ua)
    then have "c \<noteq> asciiUpper a" by auto
    with 1 show ?thesis by simp
  next
    case False
    then have "asciiUpper c = c" by (auto simp: asciiUpper_def lowerCase_def)
    moreover have "c \<noteq> a" using False assms by auto
    ultimately show ?thesis by auto
  qed
qed

lemma caseVariation_iff:
  assumes "list_all lowerCase w"
  shows "caseVariation w s \<longleftrightarrow> map asciiUpper s = map asciiUpper w"
proof -
  have "map asciiUpper s = map asciiUpper w \<longleftrightarrow> list_all2 (\<lambda>a c. asciiUpper c = asciiUpper a) w s"
    by (auto simp: list_all2_conv_all_nth list_eq_iff_nth_eq)
  also have "\<dots> \<longleftrightarrow> list_all2 (\<lambda>a c. c = a \<or> c = asciiUpper a) w s"
    using assms
    by (auto simp: list_all2_conv_all_nth list_all_length asciiUpper_eq_iff)
  finally show ?thesis by (simp add: caseVariation_def)
qed

lemma caseVariation_isASCII:
  assumes "list_all lowerCase w" "caseVariation w s"
  shows "isASCII s"
proof -
  have "\<And>a c. lowerCase a \<Longrightarrow> c = a \<or> c = asciiUpper a \<Longrightarrow> byte c < 0x80"
    by (auto simp: lowerCase_def asciiUpper_def byte_def)
  with assms show ?thesis
    by (auto simp: caseVariation_def isASCII_def list_all2_conv_all_nth list_all_length)
qed

lemma lower_words:
  "list_all lowerCase ''debug''" "list_all lowerCase ''info''"
  "list_all lowerCase ''warn''" "list_all lowerCase ''error''"
  by (simp_all add: lowerCase_def byte_def)

lemma upper_words:
  "map asciiUpper ''debug'' = ''DEBUG''" "map asciiUpper ''info'' = ''INFO''"
  "map asciiUpper ''warn'' = ''WARN''" "map asciiUpper ''error'' = ''ERROR''"
  by (simp_all add: asciiUpper_def byte_def char_of_eq_iff)

lemma caseVariation_words:
  "caseVariation ''debug'' s \<longleftrightarrow> map asciiUpper s = ''DEBUG''"
  "caseVariation ''info'' s \<longleftrightarrow> map asciiUpper s = ''INFO''"
  "caseVariation ''warn'' s \<longleftrightarrow> map asciiUpper s = ''WARN''"
  "caseVariation ''error'' s \<longleftrightarrow> map asciiUpper s = ''ERROR''"
  using caseVariation_iff[OF lower_words(1), of s] caseVariation_iff[OF lower_words(2), of s]
    caseVariation_iff[OF lower_words(3), of s] caseVariation_iff[OF lower_words(4), of s]
  by (simp_all only: upper_words)

lemma levelNameOf_ascii:
  "isASCII level \<Longrightarrow> levelNameOf tbl level = specLevelName level"
  by (simp add: levelNameOf_def specLevelName_def strings_ToUpper_def Let_def caseVariation_words)

lemma levelNameOf_variation:
  "caseVariation ''debug'' level \<Longrightarrow> levelNameOf tbl level = ''DEBUG''"
  "caseVariation ''info'' level \<Longrightarrow> levelNameOf tbl level = ''INFO''"
  "caseVariation ''warn'' level \<Longrightarrow> levelNameOf tbl level = ''WARN''"
  "caseVariation ''error'' level \<Longrightarrow> levelNameOf tbl level = ''ERROR''"
  using caseVariation_isASCII[OF lower_words(1), of level]  caseVariation_isASCII[OF lower_words(2), of level]
   caseVariation_isASCII[OF lower_words(3), of level]  caseVariation_isASCII[OF lower_words(4), of level]
  by (simp_all add: levelNameOf_def strings_ToUpper_def Let_def caseVariation_words)

lemma InitLogger_level_name:
  "levelNameOf (unicodeUpper rt) level = levelNameOf (unicodeUpper rt) level' \<Longrightarrow>
   fst (InitLogger rt isSave f level et s) = fst (InitLogger rt isSave f level' et s)"
  by (simp add: InitLogger_def Let_def split: sum.splits)

lemma dotless_info:
  "levelNameOf upperDotlessI [CHR 0xC4, CHR 0xB1, CHR ''n'', CHR ''f'', CHR ''o''] = ''INFO''"
  by (simp add: levelNameOf_def Let_def strings_ToUpper_def isASCII_def byte_def upperDotlessI_def
      unicode_ToUpper_def EncodeRune_def inRange_def char_of_eq_iff)

lemma dotless_spec:
  "specLevelName [CHR 0xC4, CHR 0xB1, CHR ''n'', CHR ''f'', CHR ''o''] = ''DEBUG''"
  by (simp add: specLevelName_def caseVariation_def asciiUpper_def byte_def eq_char_of_iff)

text \<open>
  Claim C1, as the code has it. The level is resolved through \<open>strings.ToUpper\<close>: every
  case variation of debug, info, warn and error resolves to its level; on a level string
  of ASCII bytes the resolved name is exactly the spec's (every other ASCII string, the
  empty one included, resolves to DEBUG); whatever the string, a level whose upper-cased
  form is not INFO, WARN or ERROR resolves to DEBUG, and one whose upper-cased form is
  INFO, WARN or ERROR resolves to that level; and a level that resolves to DEBUG
  makes \<open>InitLogger\<close> return exactly the error, if any, that the level "debug" does. (A
  string outside ASCII whose Unicode upper-casing is a level name resolves to that level.)
\<close>

theorem level_resolution:
  "(caseVariation ''debug'' level \<longrightarrow> levelNameOf tbl level = ''DEBUG'')
   \<and> (caseVariation ''info'' level \<longrightarrow> levelNameOf tbl level = ''INFO'')
   \<and> (caseVariation ''warn'' level \<longrightarrow> levelNameOf tbl level = ''WARN'')
   \<and> (caseVariation ''error'' level \<longrightarrow> levelNameOf tbl level = ''ERROR'')
   \<and> (isASCII level \<longrightarrow> levelNameOf tbl level = specLevelName level)
   \<and> (strings_ToUpper tbl level \<notin> set [''INFO'', ''WARN'', ''ERROR''] \<longrightarrow>
        levelNameOf tbl level = ''DEBUG'')
   \<and> (strings_ToUpper tbl level = ''INFO'' \<longrightarrow> levelNameOf tbl level = ''INFO'')
   \<and> (strings_ToUpper tbl level = ''WARN'' \<longrightarrow> levelNameOf tbl level = ''WARN'')
   \<and> (strings_ToUpper tbl level = ''ERROR'' \<longrightarrow> levelNameOf tbl level = ''ERROR'')
   \<and> (levelNameOf (unicodeUpper rt) level = ''DEBUG'' \<longrightarrow>
        fst (InitLogger rt isSave f level et s) = fst (InitLogger rt isSave f ''debug'' et s))"
proof (intro conjI impI)
  assume "strings_ToUpper tbl level \<notin> set [''INFO'', ''WARN'', ''ERROR'']"
  then show "levelNameOf tbl level = ''DEBUG''"
    by (simp add: levelNameOf_def Let_def)
next
  assume "strings_ToUpper tbl level = ''INFO''"
  then show "levelNameOf tbl level = ''INFO''"
    by (simp add: levelNameOf_def Let_def)
next
  assume "strings_ToUpper tbl level = ''WARN''"
  then show "levelNameOf tbl level = ''WARN''"
    by (simp add: levelNameOf_def Let_def)
next
  assume "strings_ToUpper tbl level = ''ERROR''"
  then show "levelNameOf tbl level = ''ERROR''"
    by (simp add: levelNameOf_def Let_def)
next
  assume d: "levelNameOf (unicodeUpper rt) level = ''DEBUG''"
  have "levelNameOf (unicodeUpper rt) ''debug'' = ''DEBUG''"
    by (simp add: levelNameOf_def strings_ToUpper_def isASCII_def asciiUpper_def byte_def Let_def
        char_of_eq_iff)
  with d show "fst (InitLogger rt isSave f level et s) = fst (InitLogger rt isSave f ''debug'' et s)"
    by (simp add: InitLogger_level_name)
qed (simp_all add: levelNameOf_variation levelNameOf_ascii)

theorem level_resolution_witness:
  "levelNameOf upperDotlessI ''Debug'' = ''DEBUG''
   \<and> levelNameOf upperDotlessI ''iNfO'' = ''INFO''
   \<and> levelNameOf upperDotlessI ''WARN'' = ''WARN''
   \<and> levelNameOf upperDotlessI ''error'' = ''ERROR''
   \<and> levelNameOf upperDotlessI ''verbose'' = specLevelName ''verbose''
   \<and> levelNameOf upperDotlessI [] = ''DEBUG''
   \<and> strings_ToUpper upperDotlessI [CHR 0xC4, CHR 0xB1, CHR ''n'', CHR ''f'', CHR ''o''] = ''INFO''
   \<and> levelNameOf upperDotlessI [CHR 0xC4, CHR 0xB1, CHR ''n'', CHR ''f'', CHR ''o''] = ''INFO''
   \<and> strings_ToUpper upperDotlessI ''warn'' = ''WARN''
   \<and> strings_ToUpper upperDotlessI ''Error'' = ''ERROR''
   \<and> levelNameOf upperDotlessI ''Error'' = ''ERROR''
   \<and> fst (InitLogger goodRuntime False [] ''verbose'' [] startState) =
       fst (InitLogger goodRuntime False [] ''debug'' [] startState)"
proof -
  have v: "caseVariation ''debug'' ''Debug''" "caseVariation ''info'' ''iNfO''"
    "caseVariation ''warn'' ''WARN''" "caseVariation ''error'' ''error''"
    by (simp_all add: caseVariation_def asciiUpper_def byte_def eq_char_of_iff)
  have a: "isASCII ''verbose''"
    by (simp add: isASCII_def byte_def)
  have e: "strings_ToUpper upperDotlessI [] \<notin> set [''INFO'', ''WARN'', ''ERROR'']"
    by (simp add: strings_ToUpper_def isASCII_def)
  have d: "levelNameOf (unicodeUpper goodRuntime) ''verbose'' = ''DEBUG''"
    by (simp add: goodRuntime_def levelNameOf_def strings_ToUpper_def isASCII_def asciiUpper_def
        byte_def Let_def char_of_eq_iff)
  have u: "strings_ToUpper upperDotlessI [CHR 0xC4, CHR 0xB1, CHR ''n'', CHR ''f'', CHR ''o''] = ''INFO''"
    "strings_ToUpper upperDotlessI ''warn'' = ''WARN''"
    "strings_ToUpper upperDotlessI ''Error'' = ''ERROR''"
    by (simp_all add: strings_ToUpper_def isASCII_def asciiUpper_def byte_def upperDotlessI_def
        unicode_ToUpper_def EncodeRune_def inRange_def char_of_eq_iff)
  have 1: "levelNameOf upperDotlessI ''Debug'' = ''DEBUG''
     \<and> levelNameOf upperDotlessI ''iNfO'' = ''INFO''
     \<and> levelNameOf upperDotlessI ''WARN'' = ''WARN''
     \<and> levelNameOf upperDotlessI ''error'' = ''ERROR''
     \<and> levelNameOf upperDotlessI ''verbose'' = specLevelName ''verbose''
     \<and> levelNameOf upperDotlessI [] = ''DEBUG''
     \<and> fst (InitLogger goodRuntime False [] ''verbose'' [] startState) =
         fst (InitLogger goodRuntime False [] ''debug'' [] startState)"
    using level_resolution[of "''Debug''" upperDotlessI] level_resolution[of "''iNfO''" upperDotlessI]
      level_resolution[of "''WARN''" upperDotlessI] level_resolution[of "''error''" upperDotlessI]
      level_resolution[of "''verbose''" upperDotlessI goodRuntime False "[]" "[]" startState]
      level_resolution[of "[]" upperDotlessI] v a e d
    by simp
  have 2: "levelNameOf upperDotlessI [CHR 0xC4, CHR 0xB1, CHR ''n'', CHR ''f'', CHR ''o''] = ''INFO''"
    using level_resolution[of "[CHR 0xC4, CHR 0xB1, CHR ''n'', CHR ''f'', CHR ''o'']" upperDotlessI] u(1)
    by blast
  have 3: "levelNameOf upperDotlessI ''Error'' = ''ERROR''"
    using level_resolution[of "''Error''" upperDotlessI] u(3)
    by blast
  show ?thesis
    using 1 2 3 u by blast
qed

text \<open>
  The claim as the spec states it fails on the five bytes C4 B1 6E 66 6F, the UTF-8 text
  of dotless i, n, f, o: it is no case variation of a level name, so the spec resolves
  it to DEBUG; \<open>InitLogger\<close> resolves it to INFO and stores a logger of the info level.
\<close>

theorem level_resolution_counterexample:
  "levelNameOf upperDotlessI [CHR 0xC4, CHR 0xB1, CHR ''n'', CHR ''f'', CHR ''o''] = ''INFO''
   \<and> specLevelName [CHR 0xC4, CHR 0xB1, CHR ''n'', CHR ''f'', CHR ''o''] = ''DEBUG''
   \<and> map_option (\<lambda>lg. cfgLevel (config lg))
        (defaultLogger (snd (InitLogger goodRuntime False []
                               [CHR 0xC4, CHR 0xB1, CHR ''n'', CHR ''f'', CHR ''o''] [] startState)))
       = Some InfoLevel"
proof -
  have "resolvedLevel upperDotlessI [CHR 0xC4, CHR 0xB1, CHR ''n'', CHR ''f'', CHR ''o''] = InfoLevel"
    by (simp only: resolvedLevel_def dotless_info) (simp add: parseLevel_def)
  then have "map_option (\<lambda>lg. cfgLevel (config lg))
        (defaultLogger (snd (InitLogger goodRuntime False []
                               [CHR 0xC4, CHR 0xB1, CHR ''n'', CHR ''f'', CHR ''o''] [] startState)))
       = Some InfoLevel"
    by (simp add: InitLogger_console goodRuntime_def noError_def initialised_sel resolvedConfig_def)
  then show ?thesis
    by (simp only: dotless_info dotless_spec simp_thms)
qed

section \<open>The context fields\<close>

lemma collect_restrict: "collect c ks m = m ++ (c |` set ks)"
proof (induction ks arbitrary: m)
  case Nil
  then show ?case by simp
next
  case (Cons key ks)
  show ?case
  proof (cases "c key")
    case None
    then show ?thesis
      by (auto simp: Cons.IH fun_eq_iff map_add_def restrict_map_def split: option.splits)
  next
    case (Some v)
    then show ?thesis
      by (auto simp: Cons.IH fun_eq_iff map_add_def restrict_map_def split: option.splits)
  qed
qed

lemma contextFields_eq:
  "contextFields ctx = (case ctx of None \<Rightarrow> Map.empty | Some c \<Rightarrow> c |` set keys)"
  by (simp add: contextFields_def collect_restrict split: option.splits)

lemma restrict_empty_iff: "c |` A = Map.empty \<longleftrightarrow> (\<forall>k\<in>A. c k = None)"
  by (auto simp: restrict_map_def fun_eq_iff)

text \<open>
  Claim C2. \<open>Ctx\<close> collects exactly the pairs of the four keys that the context holds.
  With a nil context or none of the keys it is \<open>getLogger()\<close>; with at least one key it is
  \<open>getLogger()\<close> with one more field, named "context", whose value is the map of the pairs
  found. When a logger exists, \<open>Ctx\<close> returns and leaves the state alone.
\<close>

theorem Ctx_context_field:
  "contextFields ctx = (case ctx of None \<Rightarrow> Map.empty | Some c \<Rightarrow> c |` set keys)
   \<and> ((ctx = None \<or> (\<exists>c. ctx = Some c \<and> (\<forall>k\<in>set keys. c k = None))) \<longrightarrow>
        Ctx rt ctx s = getLogger rt s)
   \<and> (\<forall>c. ctx = Some c \<and> (\<exists>k\<in>set keys. c k \<noteq> None) \<longrightarrow>
        Ctx rt ctx s =
          andThen (getLogger rt s)
            (\<lambda>lg s'. (Returns (lg\<lparr>lgFields := lgFields lg @ [Field ''context'' (GoMap (c |` set keys))]\<rparr>), s')))
   \<and> (\<forall>lg. defaultLogger s = Some lg \<longrightarrow>
        Ctx rt ctx s =
          (Returns (if contextFields ctx = Map.empty then AddCallerSkip 1 lg
                    else (AddCallerSkip 1 lg)\<lparr>lgFields := lgFields lg @ [Field ''context'' (GoMap (contextFields ctx))]\<rparr>),
           s))"
proof (intro conjI allI impI)
  show "contextFields ctx = (case ctx of None \<Rightarrow> Map.empty | Some c \<Rightarrow> c |` set keys)"
    by (rule contextFields_eq)
next
  assume "ctx = None \<or> (\<exists>c. ctx = Some c \<and> (\<forall>k\<in>set keys. c k = None))"
  then have "contextFields ctx = Map.empty"
    by (auto simp: contextFields_eq restrict_empty_iff)
  then show "Ctx rt ctx s = getLogger rt s"
    by (simp add: Ctx_def)
next
  fix c
  assume a: "ctx = Some c \<and> (\<exists>k\<in>set keys. c k \<noteq> None)"
  then have "contextFields ctx = c |` set keys" by (simp add: contextFields_eq)
  moreover have "c |` set keys \<noteq> Map.empty"
    using a by (simp add: restrict_empty_iff)
  ultimately show "Ctx rt ctx s =
          andThen (getLogger rt s)
            (\<lambda>lg s'. (Returns (lg\<lparr>lgFields := lgFields lg @ [Field ''context'' (GoMap (c |` set keys))]\<rparr>), s'))"
    by (simp add: Ctx_def With_def Any_def)
next
  fix lg
  assume "defaultLogger s = Some lg"
  then show "Ctx rt ctx s =
          (Returns (if contextFields ctx = Map.empty then AddCallerSkip 1 lg
                    else (AddCallerSkip 1 lg)\<lparr>lgFields := lgFields lg @ [Field ''context'' (GoMap (contextFields ctx))]\<rparr>),
           s)"
    by (simp add: Ctx_def getLogger_ready andThen_def With_def Any_def AddCallerSkip_def)
qed

theorem Ctx_context_field_witness:
  "Ctx goodRuntime None readyState = getLogger goodRuntime readyState
   \<and> Ctx goodRuntime (Some (Map.empty(''other'' \<mapsto> GoInt 7))) readyState = getLogger goodRuntime readyState
   \<and> Ctx goodRuntime (Some (Map.empty(''X-B3-TraceId'' \<mapsto> GoString ''t1'', ''other'' \<mapsto> GoInt 7))) readyState =
       (Returns (consoleLogger\<lparr>callerSkip := 1,
                   lgFields := [Field ''context'' (GoMap (Map.empty(''X-B3-TraceId'' \<mapsto> GoString ''t1'')))]\<rparr>),
        readyState)"
proof -
  let ?c = "Map.empty(''X-B3-TraceId'' \<mapsto> GoString ''t1'', ''other'' \<mapsto> GoInt 7)"
  have r: "?c |` set keys = Map.empty(''X-B3-TraceId'' \<mapsto> GoString ''t1'')"
    by (auto simp: fun_eq_iff restrict_map_def keys_def)
  have k: "\<exists>k\<in>set keys. ?c k \<noteq> None"
    by (simp add: keys_def)
  have d: "defaultLogger readyState = Some consoleLogger"
    by (simp add: readyState_def)
  have o: "\<forall>k\<in>set keys. (Map.empty(''other'' \<mapsto> GoInt 7)) k = None"
    by (simp add: keys_def)
  have 1: "Ctx goodRuntime None readyState = getLogger goodRuntime readyState"
    using Ctx_context_field[THEN conjunct2, THEN conjunct1, rule_format, of None goodRuntime readyState]
    by simp
  have 2: "Ctx goodRuntime (Some (Map.empty(''other'' \<mapsto> GoInt 7))) readyState = getLogger goodRuntime readyState"
    using Ctx_context_field[THEN conjunct2, THEN conjunct1, rule_format,
        of "Some (Map.empty(''other'' \<mapsto> GoInt 7))" goodRuntime readyState] o
    by simp
  have 3: "Ctx goodRuntime (Some ?c) readyState =
       (Returns (consoleLogger\<lparr>callerSkip := 1,
                   lgFields := [Field ''context'' (GoMap (Map.empty(''X-B3-TraceId'' \<mapsto> GoString ''t1'')))]\<rparr>),
        readyState)"
    using Ctx_context_field[THEN conjunct2, THEN conjunct2, THEN conjunct1, rule_format,
        of "Some ?c" ?c goodRuntime readyState, OF conjI[OF refl k]]
    by (simp only: r) (simp add: getLogger_ready[OF d] andThen_def AddCallerSkip_def consoleLogger_def built_def)
  show ?thesis
    using 1 2 3 by blast
qed

section \<open>The encoding and the output paths\<close>

text \<open>
  Claim C3. With \<open>isSave\<close> true the encoding \<open>InitLogger\<close> resolves is "json"
  whatever \<open>encodingType\<close> holds, and \<open>encodingType\<close> has no effect at all: the call
  does what the call without it does. When the file name is plain and the call succeeds,
  the logger it stores encodes as JSON.
\<close>

theorem file_encoding_json:
  "resolveEncoding True et = ''json''
   \<and> InitLogger rt True f level et s = InitLogger rt True f level [] s
   \<and> (plain (resolveFilename True f) \<and> fst (InitLogger rt True f level et s) = None \<longrightarrow>
        (\<exists>lg. defaultLogger (snd (InitLogger rt True f level et s)) = Some lg
              \<and> Encoding (config lg) = ''json''))"
proof (intro conjI impI)
  show "resolveEncoding True et = ''json''"
    by (simp add: resolveEncoding_def)
  show "InitLogger rt True f level et s = InitLogger rt True f level [] s"
    by (simp add: InitLogger_def resolveEncoding_def)
next
  assume "plain (resolveFilename True f) \<and> fst (InitLogger rt True f level et s) = None"
  then have "snd (InitLogger rt True f level et s) =
           initialised (resolvedConfig (unicodeUpper rt) True f level et)
             (finishMessage rt True (resolveFilename True f) level (resolveEncoding True et)) s"
    by (simp add: InitLogger_file_success)
  then show "\<exists>lg. defaultLogger (snd (InitLogger rt True f level et s)) = Some lg
              \<and> Encoding (config lg) = ''json''"
    by (simp add: initialised_sel resolvedConfig_def resolveEncoding_def)
qed

theorem file_encoding_json_witness:
  "plain (resolveFilename True ''app.log'')
   \<and> fst (InitLogger goodRuntime True ''app.log'' ''info'' [''console''] startState) = None
   \<and> (\<exists>lg. defaultLogger (snd (InitLogger goodRuntime True ''app.log'' ''info'' [''console''] startState)) = Some lg
            \<and> Encoding (config lg) = ''json'')"
proof -
  have p: "plain (resolveFilename True ''app.log'')"
    by (simp add: resolveFilename_def plain_def plainChar_def byte_def char_defs)
  show ?thesis
    using file_encoding_json[of "[''console'']" goodRuntime "''app.log''" "''info''" startState]
      p good_file_success[OF p, of "''info''" "[''console'']" startState]
    by blast
qed

text \<open>
  Claim C4. With \<open>isSave\<close> false the resolved encoding is "json" exactly when
  \<open>encodingType\<close> has a first element and it is the string "json", and "console" in
  every other case; the logger a successful call stores has this encoding and writes its
  output and its error output to "stdout".
\<close>

theorem console_encoding:
  "resolveEncoding False et =
     (case et of [] \<Rightarrow> ''console'' | e # _ \<Rightarrow> if e = ''json'' then ''json'' else ''console'')
   \<and> (fst (InitLogger rt False f level et s) = None \<longrightarrow>
        (\<exists>lg. defaultLogger (snd (InitLogger rt False f level et s)) = Some lg
              \<and> Encoding (config lg) = resolveEncoding False et
              \<and> OutputPaths (config lg) = [''stdout'']
              \<and> ErrorOutputPaths (config lg) = [''stdout'']))"
proof (intro conjI impI)
  show "resolveEncoding False et =
     (case et of [] \<Rightarrow> ''console'' | e # _ \<Rightarrow> if e = ''json'' then ''json'' else ''console'')"
    by (simp add: resolveEncoding_def split: list.splits)
next
  assume "fst (InitLogger rt False f level et s) = None"
  then have "snd (InitLogger rt False f level et s) =
           initialised (resolvedConfig (unicodeUpper rt) False f level et)
             (finishMessage rt False f level (resolveEncoding False et)) s"
    by (rule InitLogger_console_success)
  then show "\<exists>lg. defaultLogger (snd (InitLogger rt False f level et s)) = Some lg
              \<and> Encoding (config lg) = resolveEncoding False et
              \<and> OutputPaths (config lg) = [''stdout'']
              \<and> ErrorOutputPaths (config lg) = [''stdout'']"
    by (simp add: initialised_sel resolvedConfig_def)
qed

theorem console_encoding_witness:
  "resolveEncoding False [''json'', ''x''] = ''json''
   \<and> resolveEncoding False [''JSON''] = ''console''
   \<and> resolveEncoding False [] = ''console''
   \<and> fst (InitLogger goodRuntime False ''ignored'' ''warn'' [''json''] startState) = None
   \<and> (\<exists>lg. defaultLogger (snd (InitLogger goodRuntime False ''ignored'' ''warn'' [''json''] startState)) = Some lg
            \<and> Encoding (config lg) = ''json''
            \<and> OutputPaths (config lg) = [''stdout'']
            \<and> ErrorOutputPaths (config lg) = [''stdout''])"
  using console_encoding[of "[''json'', ''x'']"] console_encoding[of "[''JSON'']"] console_encoding[of "[]"]
    console_encoding[of "[''json'']" goodRuntime "''ignored''" "''warn''" startState]
    good_console_success[of "''ignored''" "''warn''" "[''json'']" startState]
  by auto




section \<open>The lazy accessor\<close>

text \<open>
  Claim C6. When a logger exists, \<open>GetLogger(skip)\<close> returns it with \<open>skip\<close> more
  caller frames skipped and leaves the state as it is. When none exists it first runs
  \<open>InitLogger(false, "", "debug")\<close>: if that fails the process exits; otherwise the
  logger built (console output, debug level, console encoding) is stored and returned
  with \<open>skip\<close> caller frames skipped.
\<close>

theorem GetLogger_lazy_view:
  "(\<forall>lg. defaultLogger s = Some lg \<longrightarrow>
       GetLogger rt skip s = (Returns (lg\<lparr>callerSkip := callerSkip lg + skip\<rparr>), s))
   \<and> (defaultLogger s = None \<longrightarrow>
        GetLogger rt skip s =
          (case InitLogger rt False [] ''debug'' [] s of
             (Some err, s') \<Rightarrow> (Exits, s')
           | (None, s') \<Rightarrow> WithOptions_AddCallerSkip skip s'))
   \<and> (defaultLogger s = None \<longrightarrow>
        GetLogger rt skip s =
          (case buildError rt defaultConfig of
             Some err \<Rightarrow>
               (Exits, s\<lparr>logFlags := Lmicroseconds + Lshortfile + LstdFlags, defaultLogger := None\<rparr>)
           | None \<Rightarrow>
               (Returns ((built defaultConfig)\<lparr>callerSkip := skip\<rparr>),
                initialised defaultConfig (finishMessage rt False [] ''debug'' ''console'') s)))"
proof (intro conjI allI impI)
  fix lg
  assume "defaultLogger s = Some lg"
  then show "GetLogger rt skip s = (Returns (lg\<lparr>callerSkip := callerSkip lg + skip\<rparr>), s)"
    by (simp add: GetLogger_def WithOptions_AddCallerSkip_def AddCallerSkip_def)
next
  assume "defaultLogger s = None"
  then show "GetLogger rt skip s =
          (case InitLogger rt False [] ''debug'' [] s of
             (Some err, s') \<Rightarrow> (Exits, s')
           | (None, s') \<Rightarrow> WithOptions_AddCallerSkip skip s')"
    by (simp add: GetLogger_def)
next
  assume "defaultLogger s = None"
  then show "GetLogger rt skip s =
          (case buildError rt defaultConfig of
             Some err \<Rightarrow>
               (Exits, s\<lparr>logFlags := Lmicroseconds + Lshortfile + LstdFlags, defaultLogger := None\<rparr>)
           | None \<Rightarrow>
               (Returns ((built defaultConfig)\<lparr>callerSkip := skip\<rparr>),
                initialised defaultConfig (finishMessage rt False [] ''debug'' ''console'') s))"
    by (simp add: GetLogger_def InitLogger_console resolvedConfig_default resolveEncoding_def
        WithOptions_AddCallerSkip_def AddCallerSkip_def initialised_sel built_def
        split: option.splits)
qed

theorem GetLogger_lazy_view_witness:
  "GetLogger goodRuntime 2 readyState = (Returns (consoleLogger\<lparr>callerSkip := 2\<rparr>), readyState)
   \<and> GetLogger goodRuntime 2 startState =
       (Returns ((built defaultConfig)\<lparr>callerSkip := 2\<rparr>),
        initialised defaultConfig (finishMessage goodRuntime False [] ''debug'' ''console'') startState)
   \<and> GetLogger badRuntime 2 startState =
       (Exits, startState\<lparr>logFlags := Lmicroseconds + Lshortfile + LstdFlags, defaultLogger := None\<rparr>)"
proof -
  have r: "defaultLogger readyState = Some consoleLogger" "callerSkip consoleLogger = 0"
    by (simp_all add: readyState_def consoleLogger_def built_def)
  have n: "defaultLogger startState = None"
    by (simp add: startState_def)
  have g: "buildError goodRuntime defaultConfig = None"
    by (simp add: goodRuntime_def noError_def)
  have b: "buildError badRuntime defaultConfig = Some (BuildError ''open sink: permission denied'')"
    by (simp add: badRuntime_def cannotOpen_def)
  have 1: "GetLogger goodRuntime 2 readyState = (Returns (consoleLogger\<lparr>callerSkip := 2\<rparr>), readyState)"
    using GetLogger_lazy_view[THEN conjunct1, rule_format, OF r(1), of goodRuntime 2] r(2) by simp
  have 2: "GetLogger goodRuntime 2 startState =
       (Returns ((built defaultConfig)\<lparr>callerSkip := 2\<rparr>),
        initialised defaultConfig (finishMessage goodRuntime False [] ''debug'' ''console'') startState)"
    using GetLogger_lazy_view[THEN conjunct2, THEN conjunct2, rule_format, OF n, of goodRuntime 2] g
    by simp
  have 3: "GetLogger badRuntime 2 startState =
       (Exits, startState\<lparr>logFlags := Lmicroseconds + Lshortfile + LstdFlags, defaultLogger := None\<rparr>)"
    using GetLogger_lazy_view[THEN conjunct2, THEN conjunct2, rule_format, OF n, of badRuntime 2] b
    by simp
  show ?thesis
    using 1 2 3 by blast
qed

section \<open>The formatted logging functions\<close>

text \<open>
  Claim C7, as the code has it. For each of Debug, Info, Warn, Error and Fatal the
  package has a formatted function; it formats its arguments with \<open>fmt.Sprintf\<close> and
  then does what the plain function of the same level does on the formatted message and
  no fields.
\<close>

theorem formatted_variants:
  "formatted DebugLevel = Some Debugf \<and> leveled DebugLevel = Some Debug
   \<and> Debugf rt format a s = Debug rt (Sprintf (sprintfOther rt) format a) [] s
   \<and> formatted InfoLevel = Some Infof \<and> leveled InfoLevel = Some Info
   \<and> Infof rt format a s = Info rt (Sprintf (sprintfOther rt) format a) [] s
   \<and> formatted WarnLevel = Some Warnf \<and> leveled WarnLevel = Some Warn
   \<and> Warnf rt format a s = Warn rt (Sprintf (sprintfOther rt) format a) [] s
   \<and> formatted ErrorLevel = Some Errorf \<and> leveled ErrorLevel = Some Error
   \<and> Errorf rt format a s = Error rt (Sprintf (sprintfOther rt) format a) [] s
   \<and> formatted FatalLevel = Some Fatalf \<and> leveled FatalLevel = Some Fatal
   \<and> Fatalf rt format a s = Fatal rt (Sprintf (sprintfOther rt) format a) [] s"
  by (simp add: Debugf_def Debug_def Infof_def Info_def Warnf_def Warn_def Errorf_def Error_def
      Fatalf_def Fatal_def)

theorem formatted_variants_witness:
  "Infof goodRuntime ''user=%s ok=%t'' [StringArg ''ann'', BoolArg True] readyState =
     Info goodRuntime ''user=ann ok=true'' [] readyState
   \<and> Fatalf goodRuntime ''stop %s'' [StringArg ''now''] readyState =
     Fatal goodRuntime ''stop now'' [] readyState"
proof -
  have "Sprintf (sprintfOther goodRuntime) ''user=%s ok=%t'' [StringArg ''ann'', BoolArg True] = ''user=ann ok=true''"
    "Sprintf (sprintfOther goodRuntime) ''stop %s'' [StringArg ''now''] = ''stop now''"
    by (simp_all add: Sprintf_def verb_def)
  then show ?thesis
    using formatted_variants[of goodRuntime "''user=%s ok=%t''" "[StringArg ''ann'', BoolArg True]" readyState]
      formatted_variants[of goodRuntime "''stop %s''" "[StringArg ''now'']" readyState]
    by simp
qed

text \<open>The package has \<open>Panic\<close> but no formatted function for the panic level.\<close>

theorem formatted_variants_counterexample:
  "leveled PanicLevel = Some Panic \<and> formatted PanicLevel = None"
  by simp

section \<open>Initialisation: the singleton and the log line\<close>




section \<open>Initialisation: the error paths\<close>

text \<open>
  Claim C9. When \<open>config.Build\<close> fails, \<open>InitLogger\<close> returns its error and leaves
  \<open>defaultLogger\<close> nil, so a logger that was active is lost. When \<open>json.Unmarshal\<close>
  fails, it returns that error and \<open>defaultLogger\<close> is as before. With \<open>defaultLogger\<close>
  nil the next logging call (through \<open>getLogger\<close>) starts with the default
  initialisation \<open>InitLogger(false, "", "debug")\<close>.
\<close>

theorem build_failure_clears_logger:
  "(\<forall>cfg0 e.
      json_Unmarshal rt (configJSON rt isSave (levelNameOf (unicodeUpper rt) level)
                          (resolveEncoding isSave et) (resolveFilename isSave f)) = Inr cfg0
      \<and> buildError rt (cfg0\<lparr>EncodeTime := (if isSave then ISO8601TimeEncoder else timeFormatter)\<rparr>) = Some e
      \<longrightarrow> InitLogger rt isSave f level et s =
            (Some e, s\<lparr>logFlags := Lmicroseconds + Lshortfile + LstdFlags, defaultLogger := None\<rparr>))
   \<and> (\<forall>e.
      json_Unmarshal rt (configJSON rt isSave (levelNameOf (unicodeUpper rt) level)
                          (resolveEncoding isSave et) (resolveFilename isSave f)) = Inl e
      \<longrightarrow> InitLogger rt isSave f level et s =
            (Some e, s\<lparr>logFlags := Lmicroseconds + Lshortfile + LstdFlags\<rparr>)
          \<and> defaultLogger (snd (InitLogger rt isSave f level et s)) = defaultLogger s)
   \<and> (defaultLogger s = None \<longrightarrow>
        getLogger rt s =
          (case InitLogger rt False [] ''debug'' [] s of
             (Some err, s') \<Rightarrow> (Exits, s')
           | (None, s') \<Rightarrow> WithOptions_AddCallerSkip 1 s')
        \<and> Info rt msg fs s =
          (case InitLogger rt False [] ''debug'' [] s of
             (Some err, s') \<Rightarrow> (Exits, s')
           | (None, s') \<Rightarrow> andThen (WithOptions_AddCallerSkip 1 s') (\<lambda>lg. logAt InfoLevel lg msg fs)))"
proof (intro conjI allI impI)
  fix cfg0 e
  assume "json_Unmarshal rt (configJSON rt isSave (levelNameOf (unicodeUpper rt) level)
                          (resolveEncoding isSave et) (resolveFilename isSave f)) = Inr cfg0
      \<and> buildError rt (cfg0\<lparr>EncodeTime := (if isSave then ISO8601TimeEncoder else timeFormatter)\<rparr>) = Some e"
  then show "InitLogger rt isSave f level et s =
            (Some e, s\<lparr>logFlags := Lmicroseconds + Lshortfile + LstdFlags, defaultLogger := None\<rparr>)"
    by (simp add: InitLogger_def Let_def Build_def)
next
  fix e
  assume a: "json_Unmarshal rt (configJSON rt isSave (levelNameOf (unicodeUpper rt) level)
                          (resolveEncoding isSave et) (resolveFilename isSave f)) = Inl e"
  then show r: "InitLogger rt isSave f level et s =
            (Some e, s\<lparr>logFlags := Lmicroseconds + Lshortfile + LstdFlags\<rparr>)"
    by (simp add: InitLogger_def Let_def)
  then show "defaultLogger (snd (InitLogger rt isSave f level et s)) = defaultLogger s"
    by simp
next
  assume n: "defaultLogger s = None"
  then show g: "getLogger rt s =
          (case InitLogger rt False [] ''debug'' [] s of
             (Some err, s') \<Rightarrow> (Exits, s')
           | (None, s') \<Rightarrow> WithOptions_AddCallerSkip 1 s')"
    by (simp add: getLogger_def)
  show "Info rt msg fs s =
          (case InitLogger rt False [] ''debug'' [] s of
             (Some err, s') \<Rightarrow> (Exits, s')
           | (None, s') \<Rightarrow> andThen (WithOptions_AddCallerSkip 1 s') (\<lambda>lg. logAt InfoLevel lg msg fs))"
    by (simp add: Info_def g andThen_def split: prod.splits option.splits)
qed

theorem build_failure_clears_logger_witness:
  "defaultLogger readyState = Some consoleLogger
   \<and> InitLogger badRuntime False [] ''info'' [] readyState =
       (Some (BuildError ''open sink: permission denied''),
        readyState\<lparr>logFlags := Lmicroseconds + Lshortfile + LstdFlags, defaultLogger := None\<rparr>)
   \<and> InitLogger goodRuntime True [CHR ''a'', DQ] ''info'' [] readyState =
       (Some SyntaxError, readyState\<lparr>logFlags := Lmicroseconds + Lshortfile + LstdFlags\<rparr>)
   \<and> defaultLogger (snd (InitLogger goodRuntime True [CHR ''a'', DQ] ''info'' [] readyState)) = Some consoleLogger
   \<and> getLogger goodRuntime startState =
       (Returns ((built defaultConfig)\<lparr>callerSkip := 1\<rparr>),
        initialised defaultConfig (finishMessage goodRuntime False [] ''debug'' ''console'') startState)"
proof -
  let ?cfg0 = "\<lparr>cfgLevel = InfoLevel, Encoding = ''console'', OutputPaths = [''stdout''],
                ErrorOutputPaths = [''stdout''], EncodeTime = EpochTimeEncoder\<rparr>"
  have d: "defaultLogger readyState = Some consoleLogger"
    by (simp add: readyState_def)
  have lv: "parseLevel (levelNameOf (unicodeUpper badRuntime) ''info'') = Some InfoLevel"
    by (simp add: badRuntime_def levelNameOf_examples parseLevel_def)
  have u: "json_Unmarshal badRuntime (configJSON badRuntime False (levelNameOf (unicodeUpper badRuntime) ''info'')
                          (resolveEncoding False []) (resolveFilename False [])) = Inr ?cfg0"
    using unmarshal_console[OF lv plain_resolveEncoding, of badRuntime False "[]" "resolveFilename False []"]
    by (simp add: resolveEncoding_def)
  have b: "buildError badRuntime (?cfg0\<lparr>EncodeTime := (if False then ISO8601TimeEncoder else timeFormatter)\<rparr>)
            = Some (BuildError ''open sink: permission denied'')"
    by (simp add: badRuntime_def cannotOpen_def)
  have 1: "InitLogger badRuntime False [] ''info'' [] readyState =
       (Some (BuildError ''open sink: permission denied''),
        readyState\<lparr>logFlags := Lmicroseconds + Lshortfile + LstdFlags, defaultLogger := None\<rparr>)"
    using build_failure_clears_logger[THEN conjunct1, rule_format, OF conjI[OF u b]] .
  have pl: "plain ''a''"
    by (simp add: plain_def plainChar_def byte_def char_defs)
  have "\<not> checkValid (configJSON goodRuntime True (levelNameOf (unicodeUpper goodRuntime) ''info'')
                       (resolveEncoding True []) (''a'' @ DQ # []))"
    by (rule checkValid_quote_in_name[OF plain_levelNameOf plain_resolveEncoding pl])
       (simp_all add: plain_def)
  then have s: "json_Unmarshal goodRuntime (configJSON goodRuntime True (levelNameOf (unicodeUpper goodRuntime) ''info'')
                          (resolveEncoding True []) (resolveFilename True [CHR ''a'', DQ])) = Inl SyntaxError"
    by (simp add: json_Unmarshal_def resolveFilename_def)
  note 2 = build_failure_clears_logger[THEN conjunct2, THEN conjunct1, rule_format, OF s, of readyState]
  have n: "defaultLogger startState = None"
    by (simp add: startState_def)
  have 3: "getLogger goodRuntime startState =
       (Returns ((built defaultConfig)\<lparr>callerSkip := 1\<rparr>),
        initialised defaultConfig (finishMessage goodRuntime False [] ''debug'' ''console'') startState)"
    using build_failure_clears_logger[THEN conjunct2, THEN conjunct2, rule_format, OF n, THEN conjunct1, of goodRuntime]
    by (simp add: InitLogger_console resolvedConfig_default resolveEncoding_def goodRuntime_def
        noError_def WithOptions_AddCallerSkip_def AddCallerSkip_def initialised_sel built_def)
  show ?thesis
    using d 1 2 3 by simp
qed

text \<open>
  Claim C10, as the code has it. There are legal file names for which
  \<open>InitLogger(true, filename, level)\<close> returns a syntax error and leaves \<open>defaultLogger\<close>
  as it was, because the name is interpolated into the JSON text: every name \<open>p"q\<close>
  where \<open>p\<close> and \<open>q\<close> are plain and \<open>q\<close> is empty or starts with a character other than
  a space, a comma and a closing bracket; and every name that is a plain \<open>p\<close> followed by
  one backslash.
\<close>

theorem malformed_filename_rejected:
  "(plain p \<and> plain q \<and> (q = [] \<or> hd q \<notin> set '' ,]'') \<longrightarrow>
      \<not> checkValid (configJSON rt True (levelNameOf (unicodeUpper rt) level) (resolveEncoding True et) (p @ DQ # q))
      \<and> InitLogger rt True (p @ DQ # q) level et s =
          (Some SyntaxError, s\<lparr>logFlags := Lmicroseconds + Lshortfile + LstdFlags\<rparr>)
      \<and> defaultLogger (snd (InitLogger rt True (p @ DQ # q) level et s)) = defaultLogger s)
   \<and> (plain p \<longrightarrow>
      \<not> checkValid (configJSON rt True (levelNameOf (unicodeUpper rt) level) (resolveEncoding True et) (p @ [BSL]))
      \<and> InitLogger rt True (p @ [BSL]) level et s =
          (Some SyntaxError, s\<lparr>logFlags := Lmicroseconds + Lshortfile + LstdFlags\<rparr>)
      \<and> defaultLogger (snd (InitLogger rt True (p @ [BSL]) level et s)) = defaultLogger s)"
proof (intro conjI impI)
  assume a: "plain p \<and> plain q \<and> (q = [] \<or> hd q \<notin> set '' ,]'')"
  then have v: "\<not> checkValid (configJSON rt True (levelNameOf (unicodeUpper rt) level)
                       (resolveEncoding True et) (p @ DQ # q))"
    by (simp add: checkValid_quote_in_name plain_levelNameOf plain_resolveEncoding)
  then show "\<not> checkValid (configJSON rt True (levelNameOf (unicodeUpper rt) level)
                       (resolveEncoding True et) (p @ DQ # q))" .
  have "resolveFilename True (p @ DQ # q) = p @ DQ # q"
    by (simp add: resolveFilename_def)
  with v show r: "InitLogger rt True (p @ DQ # q) level et s =
          (Some SyntaxError, s\<lparr>logFlags := Lmicroseconds + Lshortfile + LstdFlags\<rparr>)"
    by (simp add: InitLogger_syntax_error)
  then show "defaultLogger (snd (InitLogger rt True (p @ DQ # q) level et s)) = defaultLogger s"
    by simp
next
  assume a: "plain p"
  then have v: "\<not> checkValid (configJSON rt True (levelNameOf (unicodeUpper rt) level)
                       (resolveEncoding True et) (p @ [BSL]))"
    by (simp add: checkValid_trailing_backslash plain_levelNameOf plain_resolveEncoding)
  then show "\<not> checkValid (configJSON rt True (levelNameOf (unicodeUpper rt) level)
                       (resolveEncoding True et) (p @ [BSL]))" .
  have "resolveFilename True (p @ [BSL]) = p @ [BSL]"
    by (simp add: resolveFilename_def)
  with v show r: "InitLogger rt True (p @ [BSL]) level et s =
          (Some SyntaxError, s\<lparr>logFlags := Lmicroseconds + Lshortfile + LstdFlags\<rparr>)"
    by (simp add: InitLogger_syntax_error)
  then show "defaultLogger (snd (InitLogger rt True (p @ [BSL]) level et s)) = defaultLogger s"
    by simp
qed

theorem malformed_filename_rejected_witness:
  "InitLogger goodRuntime True [CHR ''a'', DQ, CHR ''b''] ''debug'' [] readyState =
     (Some SyntaxError, readyState\<lparr>logFlags := Lmicroseconds + Lshortfile + LstdFlags\<rparr>)
   \<and> defaultLogger (snd (InitLogger goodRuntime True [CHR ''a'', DQ, CHR ''b''] ''debug'' [] readyState)) =
       Some consoleLogger
   \<and> InitLogger goodRuntime True [CHR ''C'', CHR '':'', BSL] ''debug'' [] readyState =
     (Some SyntaxError, readyState\<lparr>logFlags := Lmicroseconds + Lshortfile + LstdFlags\<rparr>)"
proof -
  have p: "plain ''a'' \<and> plain ''b'' \<and> (''b'' = [] \<or> hd ''b'' \<notin> set '' ,]'')" "plain ''C:''"
    by (simp_all add: plain_def plainChar_def byte_def char_defs)
  have d: "defaultLogger readyState = Some consoleLogger"
    by (simp add: readyState_def)
  show ?thesis
    using malformed_filename_rejected[THEN conjunct1, rule_format, OF p(1), of goodRuntime "''debug''" "[]" readyState]
      malformed_filename_rejected[THEN conjunct2, rule_format, OF p(2), of goodRuntime "''debug''" "[]" readyState]
      d
    by simp
qed

text \<open>
  Not every name that holds a quote or a backslash does so: for the name \<open>a\"b\<close> the
  assembled text is valid JSON, and with a \<open>json.Unmarshal\<close> that decodes it the call
  succeeds.
\<close>

theorem malformed_filename_rejected_counterexample:
  "DQ \<in> set escapedName \<and> BSL \<in> set escapedName
   \<and> checkValid (configJSON escapedRuntime True (levelNameOf (unicodeUpper escapedRuntime) ''debug'')
        (resolveEncoding True []) (resolveFilename True escapedName))
   \<and> fst (InitLogger escapedRuntime True escapedName ''debug'' [] startState) = None"
proof -
  have n: "levelNameOf (unicodeUpper escapedRuntime) ''debug'' = ''DEBUG''"
    by (simp add: escapedRuntime_def levelNameOf_examples)
  have f: "resolveFilename True escapedName = escapedName"
    by (simp add: resolveFilename_def escapedName_def)
  have e: "resolveEncoding True [] = ''json''"
    by (simp add: resolveEncoding_def)
  have u: "json_Unmarshal escapedRuntime (configJSON escapedRuntime True ''DEBUG'' ''json'' escapedName)
             = decodeEscaped (configJSON escapedRuntime True ''DEBUG'' ''json'' escapedName)"
    by (simp add: json_Unmarshal_def escaped_valid escaped_not_decoded) (simp add: escapedRuntime_def)
  have "fst (InitLogger escapedRuntime True escapedName ''debug'' [] startState) = None"
    by (simp add: InitLogger_def Let_def n f e u decodeEscaped_def Build_def)
       (simp add: escapedRuntime_def noError_def)
  then show ?thesis
    by (simp add: n f e escaped_valid) (simp add: escapedName_def)
qed

end
